theory Spec2Isabelle
  imports Complex_Main
begin

section \<open>Unsupervised classification of spatial count matrices (scripts/unsupervised.py)\<close>

text \<open>
  A shallow embedding of \<^verbatim>\<open>scripts/unsupervised.py\<close>. The script is one function,
  \<^verbatim>\<open>main\<close>, that validates its arguments, merges the count tables, filters and
  normalises them, reduces their dimension, clusters the reduced coordinates and
  writes tables and plots. Each block of \<^verbatim>\<open>main\<close> is a definition below; the
  blocks are chained by \<open>main\<close> at the end of the definitions.

  Conventions of the embedding:
  \<^item> an exception or \<^verbatim>\<open>sys.exit\<close> is a value of \<open>py_error\<close>, and a block that may
    raise returns \<open>py_error + 'a\<close>;
  \<^item> a floating-point number is an \<open>fval\<close>: a finite value carried as a real number
    (rounding and overflow are not modelled), or one of NaN, +Inf, -Inf;
  \<^item> what the script hands to pandas, scikit-learn, the plotting helpers and the file
    system is recorded as a list of events, in the order of the calls.
\<close>

subsection \<open>Python strings\<close>

text \<open>\<^verbatim>\<open>s.startswith(p)\<close>.\<close>

fun startswith :: "string \<Rightarrow> string \<Rightarrow> bool" where
  "startswith s [] = True"
| "startswith [] (p # ps) = False"
| "startswith (c # cs) (p # ps) = (c = p \<and> startswith cs ps)"

text \<open>\<^verbatim>\<open>sub in s\<close> on two strings: \<open>sub\<close> occurs in \<open>s\<close> as a contiguous substring.\<close>

fun py_in :: "string \<Rightarrow> string \<Rightarrow> bool" where
  "py_in sub [] = (sub = [])"
| "py_in sub (c # cs) = (startswith (c # cs) sub \<or> py_in sub cs)"

text \<open>
  \<^verbatim>\<open>s.split(sep)\<close> for a separator of one character (the script splits on
  \<^verbatim>\<open>"x"\<close> and \<^verbatim>\<open>"_"\<close> only). The result is never empty:
  \<^verbatim>\<open>"".split("_") == [""]\<close>.
\<close>

fun py_split :: "char \<Rightarrow> string \<Rightarrow> string list" where
  "py_split sep [] = [[]]"
| "py_split sep (c # cs) =
     (if c = sep then [] # py_split sep cs
      else (case py_split sep cs of
              [] \<Rightarrow> [[c]]
            | t # ts \<Rightarrow> (c # t) # ts))"

text \<open>\<^verbatim>\<open>str(n)\<close> and \<^verbatim>\<open>"{}".format(n)\<close> for a non-negative integer.\<close>

definition digit_char :: "nat \<Rightarrow> char" where
  "digit_char d = ''0123456789'' ! d"

function str_nat :: "nat \<Rightarrow> string" where
  "str_nat n = (if n < 10 then [digit_char n] else str_nat (n div 10) @ [digit_char (n mod 10)])"
  by pat_completeness auto
termination
  by (relation "measure id") auto

declare str_nat.simps [simp del]

subsection \<open>Exceptions\<close>

text \<open>
  \<open>SystemExit msg status\<close> is \<^verbatim>\<open>sys.stderr.write(msg); sys.exit(status)\<close>.
\<close>

datatype py_error =
    SystemExit string int
  | TypeError
  | IndexError
  | ValueError
  | AssertionError

subsection \<open>Choice of the dimensionality reduction (lines 207-228)\<close>

text \<open>
  The model objects of scikit-learn with the arguments the script passes:
  \<^item> \<open>TSNE n\<close>: \<^verbatim>\<open>TSNE(n_components=n, perplexity=5, early_exaggeration=4.0,
    learning_rate=1000, n_iter=1000, n_iter_without_progress=30, metric="euclidean",
    init="pca", method="exact", angle=0.5)\<close>;
  \<^item> \<open>PCA n whiten copy\<close>: \<^verbatim>\<open>PCA(n_components=n, whiten=True, copy=True)\<close>;
  \<^item> \<open>FastICA n\<close>: \<^verbatim>\<open>FastICA(n_components=n, algorithm='parallel', whiten=True,
    fun='logcosh')\<close>;
  \<^item> \<open>SparsePCA n alpha\<close>: \<^verbatim>\<open>SparsePCA(n_components=n, alpha=1)\<close>.
\<close>

datatype decomp_model =
    TSNE int
  | PCA int bool bool
  | FastICA int
  | SparsePCA int int

definition select_decomp :: "string \<Rightarrow> int \<Rightarrow> py_error + decomp_model" where
  "select_decomp dimensionality_algorithm num_dimensions =
     (if py_in ''tSNE'' dimensionality_algorithm then Inr (TSNE num_dimensions)
      else if py_in ''PCA'' dimensionality_algorithm then Inr (PCA num_dimensions True True)
      else if py_in ''ICA'' dimensionality_algorithm then Inr (FastICA num_dimensions)
      else if py_in ''SPCA'' dimensionality_algorithm then Inr (SparsePCA num_dimensions 1)
      else Inl (SystemExit ''Error, incorrect dimensionality reduction method'' 1))"

subsection \<open>Floating-point values\<close>

text \<open>
  A cell of a pandas frame or numpy array. Finite values are real numbers; the three
  special values of IEEE arithmetic are kept apart, since the script's clean-up steps
  are about them. The sign of a zero is not modelled.
\<close>

datatype fval = Fin real | NaN | PInf | NInf

text \<open>True division as pandas and numpy do it: no exception, a zero divisor gives
  NaN (for 0/0) or an infinity.\<close>

fun fdiv :: "fval \<Rightarrow> fval \<Rightarrow> fval" where
  "fdiv (Fin a) (Fin b) =
     (if b \<noteq> 0 then Fin (a / b) else if a = 0 then NaN else if 0 < a then PInf else NInf)"
| "fdiv (Fin a) PInf = Fin 0"
| "fdiv (Fin a) NInf = Fin 0"
| "fdiv PInf (Fin b) = (if 0 \<le> b then PInf else NInf)"
| "fdiv NInf (Fin b) = (if 0 \<le> b then NInf else PInf)"
| "fdiv _ _ = NaN"

fun fmul :: "fval \<Rightarrow> fval \<Rightarrow> fval" where
  "fmul (Fin a) (Fin b) = Fin (a * b)"
| "fmul (Fin a) PInf = (if a = 0 then NaN else if 0 < a then PInf else NInf)"
| "fmul (Fin a) NInf = (if a = 0 then NaN else if 0 < a then NInf else PInf)"
| "fmul PInf (Fin b) = (if b = 0 then NaN else if 0 < b then PInf else NInf)"
| "fmul NInf (Fin b) = (if b = 0 then NaN else if 0 < b then NInf else PInf)"
| "fmul PInf PInf = PInf"
| "fmul NInf NInf = PInf"
| "fmul PInf NInf = NInf"
| "fmul NInf PInf = NInf"
| "fmul _ _ = NaN"

fun fadd :: "fval \<Rightarrow> fval \<Rightarrow> fval" where
  "fadd (Fin a) (Fin b) = Fin (a + b)"
| "fadd (Fin a) PInf = PInf"
| "fadd (Fin a) NInf = NInf"
| "fadd PInf (Fin b) = PInf"
| "fadd NInf (Fin b) = NInf"
| "fadd PInf PInf = PInf"
| "fadd NInf NInf = NInf"
| "fadd _ _ = NaN"

text \<open>\<^verbatim>\<open>a >= b\<close>: false as soon as one side is NaN.\<close>

fun fge :: "fval \<Rightarrow> fval \<Rightarrow> bool" where
  "fge (Fin a) (Fin b) = (b \<le> a)"
| "fge NaN _ = False"
| "fge _ NaN = False"
| "fge PInf _ = True"
| "fge _ NInf = True"
| "fge _ _ = False"

text \<open>\<^verbatim>\<open>np.log2(v + 1)\<close>.\<close>

fun log2p1 :: "fval \<Rightarrow> fval" where
  "log2p1 (Fin a) = (if 0 < a + 1 then Fin (log 2 (a + 1)) else if a + 1 = 0 then NInf else NaN)"
| "log2p1 PInf = PInf"
| "log2p1 _ = NaN"

text \<open>numpy's sum and mean (NaN propagates) and pandas' sum (NaN skipped).\<close>

definition np_sum :: "fval list \<Rightarrow> fval" where
  "np_sum xs = foldl fadd (Fin 0) xs"

definition np_mean :: "fval list \<Rightarrow> fval" where
  "np_mean xs = fdiv (np_sum xs) (Fin (real (length xs)))"

definition pd_sum :: "fval list \<Rightarrow> fval" where
  "pd_sum xs = np_sum (filter (\<lambda>v. v \<noteq> NaN) xs)"

text \<open>Python 2's \<^verbatim>\<open>round\<close>: to the nearest integer, a half away from zero.\<close>

definition py_round :: "real \<Rightarrow> real" where
  "py_round x = (if 0 \<le> x then of_int \<lfloor>x + 1 / 2\<rfloor> else - of_int \<lfloor>1 / 2 - x\<rfloor>)"

text \<open>
  \<^verbatim>\<open>Series.quantile(q)\<close> with linear interpolation. The series holds finite values
  or NaN (\<open>None\<close>); NaN are dropped, an empty series gives NaN, and \<open>q\<close> outside
  \<open>[0, 1]\<close> raises \<^verbatim>\<open>ValueError\<close>.
\<close>

definition quantile :: "real option list \<Rightarrow> real \<Rightarrow> py_error + real option" where
  "quantile series q =
     (if q < 0 \<or> 1 < q then Inl ValueError
      else (let vs = sort (map the (filter (\<lambda>v. v \<noteq> None) series)) in
        if vs = [] then Inr None
        else (let pos = q * real (length vs - 1);
                  lo = nat \<lfloor>pos\<rfloor>;
                  hi = nat \<lceil>pos\<rceil>;
                  frac = pos - real lo
              in Inr (Some (vs ! lo * (1 - frac) + vs ! hi * frac)))))"

text \<open>\<^verbatim>\<open>Series.var()\<close>: sample variance (ddof = 1) of the values that are not NaN;
  NaN when fewer than two are left or when an infinity is among them.\<close>

definition fin_value :: "fval \<Rightarrow> real" where
  "fin_value v = (case v of Fin a \<Rightarrow> a | _ \<Rightarrow> 0)"

definition variance :: "fval list \<Rightarrow> real option" where
  "variance r =
     (let xs = filter (\<lambda>v. v \<noteq> NaN) r in
      if list_ex (\<lambda>v. v = PInf \<or> v = NInf) xs \<or> length xs < 2 then None
      else (let ys = map fin_value xs;
                m = sum_list ys / real (length ys)
            in Some (sum_list (map (\<lambda>y. (y - m) ^ 2) ys) / real (length ys - 1))))"

text \<open>\<^verbatim>\<open>a >= b\<close> of a finite number and a possibly-NaN threshold.\<close>

definition ge_thr :: "real \<Rightarrow> real option \<Rightarrow> bool" where
  "ge_thr a thr = (case thr of None \<Rightarrow> False | Some b \<Rightarrow> b \<le> a)"

definition opt_ge_thr :: "real option \<Rightarrow> real option \<Rightarrow> bool" where
  "opt_ge_thr a thr = (case a of None \<Rightarrow> False | Some x \<Rightarrow> ge_thr x thr)"

subsection \<open>Data frames\<close>

text \<open>
  A pandas frame: the column labels, and the rows in order, each with its label (the
  index) and its cells, one per column (frames are rectangular; the operations below
  are meant for such frames). The script's frames are spots x genes or genes x spots. A numpy array of two dimensions carries its number of columns, which an array
  without rows still has.
\<close>

record dataframe =
  df_columns :: "string list"
  df_rows :: "(string \<times> fval list) list"

record ndarray =
  nd_ncols :: nat
  nd_rows :: "real list list"

definition df_index :: "dataframe \<Rightarrow> string list" where
  "df_index d = map fst (df_rows d)"

definition df_empty :: dataframe where
  "df_empty = \<lparr>df_columns = [], df_rows = []\<rparr>"

definition map_cells :: "(fval \<Rightarrow> fval) \<Rightarrow> dataframe \<Rightarrow> dataframe" where
  "map_cells f d = d\<lparr>df_rows := map (\<lambda>(s, r). (s, map f r)) (df_rows d)\<rparr>"

text \<open>\<^verbatim>\<open>d.replace([np.inf, -np.inf], np.nan)\<close>: a new frame; \<open>d\<close> itself is unchanged.\<close>

definition df_replace_inf :: "dataframe \<Rightarrow> dataframe" where
  "df_replace_inf d = map_cells (\<lambda>v. if v = PInf \<or> v = NInf then NaN else v) d"

text \<open>\<^verbatim>\<open>d.fillna(0.0, inplace=True)\<close>: the frame \<open>d\<close> afterwards.\<close>

definition df_fillna :: "dataframe \<Rightarrow> dataframe" where
  "df_fillna d = map_cells (\<lambda>v. if v = NaN then Fin 0 else v) d"

text \<open>
  The clean-up block of lines 105-107, 121-123 and 141-143: the result of
  \<^verbatim>\<open>replace\<close> is dropped, then NaN are filled in place.
\<close>

definition replace_nan_inf :: "dataframe \<Rightarrow> dataframe" where
  "replace_nan_inf d = (let dropped = df_replace_inf d in df_fillna d)"

definition df_transpose :: "dataframe \<Rightarrow> dataframe" where
  "df_transpose d =
     \<lparr>df_columns = df_index d,
      df_rows = map (\<lambda>j. (df_columns d ! j, map (\<lambda>(s, r). r ! j) (df_rows d)))
                  [0..<length (df_columns d)]\<rparr>"

text \<open>The cells of a row under new column labels; a label the row does not have
  gives NaN (the outer join of \<^verbatim>\<open>append\<close>, the alignment of \<^verbatim>\<open>.loc[key] = series\<close>).\<close>

definition reindex_row :: "string list \<Rightarrow> string list \<Rightarrow> fval list \<Rightarrow> fval list" where
  "reindex_row old new r =
     map (\<lambda>c. case map_of (zip old r) c of None \<Rightarrow> NaN | Some v \<Rightarrow> v) new"

text \<open>
  \<^verbatim>\<open>a.append(b)\<close>: the rows of \<open>a\<close> then those of \<open>b\<close>, over the union of the
  columns. The union keeps the columns in the order of their first appearance (the
  order pandas gives differing columns depends on its version).
\<close>

definition df_append :: "dataframe \<Rightarrow> dataframe \<Rightarrow> dataframe" where
  "df_append a b =
     (let cols = df_columns a @ filter (\<lambda>c. c \<notin> set (df_columns a)) (df_columns b) in
      \<lparr>df_columns = cols,
       df_rows = map (\<lambda>(s, r). (s, reindex_row (df_columns a) cols r)) (df_rows a)
               @ map (\<lambda>(s, r). (s, reindex_row (df_columns b) cols r)) (df_rows b)\<rparr>)"

text \<open>\<^verbatim>\<open>d.sum(axis=0)\<close>: one sum per column.\<close>

definition col_sums :: "dataframe \<Rightarrow> fval list" where
  "col_sums d = map (\<lambda>j. pd_sum (map (\<lambda>(s, r). r ! j) (df_rows d))) [0..<length (df_columns d)]"

text \<open>\<^verbatim>\<open>d / factors\<close> with one factor per column.\<close>

definition df_div_cols :: "dataframe \<Rightarrow> fval list \<Rightarrow> dataframe" where
  "df_div_cols d factors = d\<lparr>df_rows := map (\<lambda>(s, r). (s, map2 fdiv r factors)) (df_rows d)\<rparr>"

text \<open>\<^verbatim>\<open>d.loc[labels]\<close>: for each label in turn, the rows that carry it.\<close>

definition df_loc :: "dataframe \<Rightarrow> string list \<Rightarrow> (string \<times> fval list) list" where
  "df_loc d labels = concat (map (\<lambda>l. filter (\<lambda>(s, r). s = l) (df_rows d)) labels)"

subsection \<open>Arguments, collaborators, events\<close>

text \<open>The arguments of \<^verbatim>\<open>main\<close>, as the command line hands them over.\<close>

record config =
  counts_table_files :: "string list"
  normalization :: string
  num_clusters :: int
  clustering_algorithm :: string
  dimensionality_algorithm :: string
  use_log_scale :: bool
  apply_sample_normalization :: bool
  num_exp_genes :: real
  num_genes_keep :: real
  outdir :: "string option"
  alignment_files :: "string list option"
  image_files :: "string list option"
  num_dimensions :: int

datatype clusterer = KMeans int | AgglomerativeClustering int

text \<open>
  What the script calls and does not define: the file system, the table reader, the
  normalisations of \<^verbatim>\<open>stanalysis.normalization\<close> (one factor per column of the frame
  they are given), scikit-learn's \<^verbatim>\<open>fit_transform\<close> and \<^verbatim>\<open>fit_predict\<close>, and
  Python's \<^verbatim>\<open>float\<close> on a string (\<open>None\<close> when it raises \<^verbatim>\<open>ValueError\<close>).
  They are parameters of the model.
\<close>

record externals =
  isfile :: "string \<Rightarrow> bool"
  isdir :: "string \<Rightarrow> bool"
  getcwd :: string
  abspath :: "string \<Rightarrow> string"
  read_table :: "string \<Rightarrow> dataframe"
  computeSizeFactors :: "dataframe \<Rightarrow> fval list"
  computeSizeFactorsLinear :: "dataframe \<Rightarrow> fval list"
  computeDESeq2LogTransform :: "dataframe \<Rightarrow> dataframe"
  computeEdgeRNormalization :: "dataframe \<Rightarrow> fval list"
  fit_transform :: "decomp_model \<Rightarrow> dataframe \<Rightarrow> ndarray"
  fit_predict :: "clusterer \<Rightarrow> ndarray \<Rightarrow> int list"
  py_float :: "string \<Rightarrow> real option"

text \<open>
  The calls that leave the script: a file written by a plotting helper or opened for
  writing, a frame written by \<^verbatim>\<open>to_csv\<close>, the matrix handed to the reducer, the
  coordinates handed to the clusterer.
\<close>

datatype event =
    WroteFile string
  | ToCsv string dataframe
  | FitTransform decomp_model dataframe
  | FitPredict clusterer ndarray

fun written_path :: "event \<Rightarrow> string list" where
  "written_path (WroteFile p) = [p]"
| "written_path (ToCsv p d) = [p]"
| "written_path _ = []"

definition written_paths :: "event list \<Rightarrow> string list" where
  "written_paths evs = concat (map written_path evs)"

text \<open>
  A run of a block: the events so far, and an exception or a value. Events stay when
  an exception follows them, as files stay on disk.
\<close>

type_synonym 'a run = "event list \<times> (py_error + 'a)"

definition run_return :: "'a \<Rightarrow> 'a run" where
  "run_return v = ([], Inr v)"

definition run_lift :: "py_error + 'a \<Rightarrow> 'a run" where
  "run_lift r = ([], r)"

definition run_emit :: "event list \<Rightarrow> unit run" where
  "run_emit evs = (evs, Inr ())"

definition run_bind :: "'a run \<Rightarrow> ('a \<Rightarrow> 'b run) \<Rightarrow> 'b run" where
  "run_bind m f =
     (case snd m of
        Inl e \<Rightarrow> (fst m, Inl e)
      | Inr v \<Rightarrow> (fst m @ fst (f v), snd (f v)))"

fun run_iter :: "('a \<Rightarrow> unit run) \<Rightarrow> 'a list \<Rightarrow> unit run" where
  "run_iter f [] = run_return ()"
| "run_iter f (x # xs) = run_bind (f x) (\<lambda>u. run_iter f xs)"

definition py_bind :: "py_error + 'a \<Rightarrow> ('a \<Rightarrow> py_error + 'b) \<Rightarrow> py_error + 'b" where
  "py_bind m f = (case m of Inl e \<Rightarrow> Inl e | Inr v \<Rightarrow> f v)"

fun py_mapM :: "('a \<Rightarrow> py_error + 'b) \<Rightarrow> 'a list \<Rightarrow> py_error + 'b list" where
  "py_mapM f [] = Inr []"
| "py_mapM f (x # xs) = py_bind (f x) (\<lambda>y. py_bind (py_mapM f xs) (\<lambda>ys. Inr (y # ys)))"

fun py_foldM :: "('a \<Rightarrow> 's \<Rightarrow> py_error + 's) \<Rightarrow> 'a list \<Rightarrow> 's \<Rightarrow> py_error + 's" where
  "py_foldM f [] s = Inr s"
| "py_foldM f (x # xs) s = py_bind (f x s) (py_foldM f xs)"

text \<open>\<^verbatim>\<open>os.path.join(a, b)\<close> (POSIX).\<close>

definition os_path_join :: "string \<Rightarrow> string \<Rightarrow> string" where
  "os_path_join a b =
     (if startswith b ''/'' then b
      else if a = [] \<or> last a = CHR ''/'' then a @ b
      else a @ ''/'' @ b)"

text \<open>
  \<^verbatim>\<open>int(s)\<close> on a string of decimal digits. The script applies it to the text before
  the first underscore of a combined spot identifier, which is the dataset index
  written at ingestion; signs and blanks, which Python accepts as well, do not occur
  there and raise here.
\<close>

definition is_digit :: "char \<Rightarrow> bool" where
  "is_digit c = (c \<in> set ''0123456789'')"

definition digit_val :: "char \<Rightarrow> nat" where
  "digit_val c = of_char c - 48"

definition py_int :: "string \<Rightarrow> py_error + nat" where
  "py_int s =
     (if s \<noteq> [] \<and> list_all is_digit s
      then Inr (foldl (\<lambda>a c. 10 * a + digit_val c) 0 s)
      else Inl ValueError)"

text \<open>\<^verbatim>\<open>xs[i]\<close> for an index that is not negative.\<close>

definition py_nth :: "'a list \<Rightarrow> nat \<Rightarrow> py_error + 'a" where
  "py_nth xs i = (if i < length xs then Inr (xs ! i) else Inl IndexError)"

subsection \<open>Validation of the arguments (lines 64-78)\<close>

definition validate :: "externals \<Rightarrow> config \<Rightarrow> py_error + unit" where
  "validate ext cfg =
     (if length (counts_table_files cfg) = 0
         \<or> list_ex (\<lambda>f. \<not> isfile ext f) (counts_table_files cfg)
      then Inl (SystemExit ''Error, input file/s not present or invalid format'' 1)
      else if (case image_files cfg of
                 None \<Rightarrow> False
               | Some im \<Rightarrow> 0 < length im \<and> length im \<noteq> length (counts_table_files cfg))
      then Inl (SystemExit
        ''Error, the number of images given as input is not the same as the number of datasets'' 1)
      else (case alignment_files cfg of
              None \<Rightarrow> Inr ()
            | Some al \<Rightarrow>
                if 0 < length al
                then (case image_files cfg of
                        None \<Rightarrow> Inl TypeError
                      | Some im \<Rightarrow>
                          if length al \<noteq> length im
                          then Inl (SystemExit
                            ''Error, the number of alignments given as input is not the same as the number of images'' 1)
                          else Inr ())
                else Inr ()))"

definition resolve_outdir :: "externals \<Rightarrow> string option \<Rightarrow> string" where
  "resolve_outdir ext od =
     abspath ext (case od of
                    None \<Rightarrow> getcwd ext
                  | Some d \<Rightarrow> if \<not> isdir ext d then getcwd ext else d)"

subsection \<open>Ingestion and identity tagging (lines 84-111)\<close>

text \<open>Line 99: \<^verbatim>\<open>"{0}_{1}".format(i, spot)\<close>.\<close>

definition tag_spot :: "nat \<Rightarrow> string \<Rightarrow> string" where
  "tag_spot i spot = str_nat i @ ''_'' @ spot"

definition tag_spots :: "nat \<Rightarrow> dataframe \<Rightarrow> dataframe" where
  "tag_spots i new_counts =
     new_counts\<lparr>df_rows := map (\<lambda>(spot, r). (tag_spot i spot, r)) (df_rows new_counts)\<rparr>"

text \<open>
  One turn of the loop over the input files. The state is the merged frame and the
  dictionary \<^verbatim>\<open>sample_counts\<close> (dataset index to the gene totals of the dataset, each
  with its gene label).
\<close>

type_synonym ingest_state = "dataframe \<times> (nat \<times> (string \<times> fval) list) list"

definition ingest_file ::
  "externals \<Rightarrow> string \<Rightarrow> bool \<Rightarrow> nat \<times> string \<Rightarrow> ingest_state \<Rightarrow> event list \<times> ingest_state"
where
  "ingest_file ext od sample_norm ic st =
     (let i = fst ic;
          new_counts = read_table ext (snd ic);
          new_counts = tag_spots i new_counts;
          counts = df_append (fst st) new_counts;
          sample_counts =
            (if sample_norm
             then snd st @ [(i, zip (df_columns new_counts) (col_sums new_counts))]
             else snd st)
      in ([WroteFile (os_path_join od (''hist_reads_'' @ str_nat i @ ''.png'')),
           WroteFile (os_path_join od (''hist_genes_'' @ str_nat i @ ''.png''))],
          (counts, sample_counts)))"

fun ingest_loop ::
  "externals \<Rightarrow> string \<Rightarrow> bool \<Rightarrow> (nat \<times> string) list \<Rightarrow> ingest_state \<Rightarrow> event list \<times> ingest_state"
where
  "ingest_loop ext od sample_norm [] st = ([], st)"
| "ingest_loop ext od sample_norm (ic # ics) st =
     (let step = ingest_file ext od sample_norm ic st;
          more = ingest_loop ext od sample_norm ics (snd step)
      in (fst step @ fst more, snd more))"

definition ingest :: "externals \<Rightarrow> config \<Rightarrow> string \<Rightarrow> ingest_state run" where
  "ingest ext cfg od =
     (let looped = ingest_loop ext od (apply_sample_normalization cfg)
                     (enumerate 0 (counts_table_files cfg)) (df_empty, []);
          counts = replace_nan_inf (fst (snd looped));
          aggregated =
            (if 1 < length (counts_table_files cfg)
             then [ToCsv (os_path_join od ''aggregated_counts.tsv'') counts]
             else [])
      in (fst looped @ aggregated, Inr (counts, snd (snd looped))))"

subsection \<open>Per sample normalization (lines 114-143)\<close>

text \<open>
  The frame of the gene totals of each dataset, one row per dataset (labelled by its
  index), over the genes of the merged frame; cleaned and transposed, it goes to
  \<^verbatim>\<open>computeSizeFactors\<close>, which gives one factor per dataset.
\<close>

definition per_sample_factors :: "dataframe \<Rightarrow> (nat \<times> (string \<times> fval) list) list \<Rightarrow> dataframe" where
  "per_sample_factors counts sample_counts =
     df_transpose (replace_nan_inf
       \<lparr>df_columns = df_columns counts,
        df_rows = map (\<lambda>(key, val). (str_nat key,
                         reindex_row (map fst val) (df_columns counts) (map snd val)))
                    sample_counts\<rparr>)"

text \<open>
  One turn of the loop of lines 133-139: the rows labelled \<open>spot\<close> are divided by the
  factor of the dataset the label names.
\<close>

definition normalize_spot :: "fval list \<Rightarrow> string \<Rightarrow> dataframe \<Rightarrow> py_error + dataframe" where
  "normalize_spot per_sample_size_factors spot counts =
     (let tokens = py_split CHR ''x'' spot in
      if length tokens \<noteq> 2 then Inl AssertionError
      else py_bind (py_int (py_split CHR ''_'' (tokens ! 0) ! 0)) (\<lambda>index.
           py_bind (py_nth per_sample_size_factors index) (\<lambda>factor.
             Inr (counts\<lparr>df_rows :=
                    map (\<lambda>(s, r). if s = spot then (s, map (\<lambda>v. fdiv v factor) r) else (s, r))
                      (df_rows counts)\<rparr>))))"

definition sample_normalization ::
  "externals \<Rightarrow> config \<Rightarrow> ingest_state \<Rightarrow> py_error + dataframe"
where
  "sample_normalization ext cfg st =
     (let counts = fst st in
      if apply_sample_normalization cfg \<and> 1 < length (counts_table_files cfg)
      then (let per_sample_size_factors =
                  computeSizeFactors ext (per_sample_factors counts (snd st))
            in py_bind (py_foldM (normalize_spot per_sample_size_factors) (df_index counts) counts)
                 (\<lambda>counts. Inr (replace_nan_inf counts)))
      else Inr counts)"

subsection \<open>Quality filter (lines 145-162)\<close>

text \<open>\<^verbatim>\<open>(row != 0).sum()\<close>: NaN and the infinities differ from zero.\<close>

definition nonzero_count :: "fval list \<Rightarrow> nat" where
  "nonzero_count r = length (filter (\<lambda>v. v \<noteq> Fin 0) r)"

text \<open>The spot filter; \<open>q\<close> is \<^verbatim>\<open>num_exp_genes / 100.0\<close> and the frame is spots x genes.\<close>

definition spot_filter :: "real \<Rightarrow> dataframe \<Rightarrow> py_error + dataframe" where
  "spot_filter q counts =
     py_bind (quantile (map (\<lambda>(s, r). Some (real (nonzero_count r))) (df_rows counts)) q)
       (\<lambda>qv. (let min_genes_spot_exp = map_option py_round qv in
          Inr (counts\<lparr>df_rows :=
                 filter (\<lambda>(s, r). ge_thr (real (nonzero_count r)) min_genes_spot_exp)
                   (df_rows counts)\<rparr>)))"

definition MIN_EXPRESION :: real where
  "MIN_EXPRESION = 2"

text \<open>The gene filter; the frame is genes x spots.\<close>

definition gene_filter :: "dataframe \<Rightarrow> dataframe" where
  "gene_filter counts =
     (let min_features_gene = py_round (real (length (df_columns counts)) * (1 / 100)) in
      counts\<lparr>df_rows :=
        filter (\<lambda>(s, r). min_features_gene
                            \<le> real (length (filter (\<lambda>v. fge v (Fin MIN_EXPRESION)) r)))
          (df_rows counts)\<rparr>)"

subsection \<open>Per spot normalization (lines 164-185)\<close>

datatype strategy = DESeq | DESeq2 | DESeq2Log | EdgeR | REL | RAW

text \<open>The chain of tests of lines 166-185; each test reads \<^verbatim>\<open>normalization in "NAME"\<close>.\<close>

definition select_normalization :: "string \<Rightarrow> py_error + strategy" where
  "select_normalization name =
     (if py_in name ''DESeq'' then Inr DESeq
      else if py_in name ''DESeq2'' then Inr DESeq2
      else if py_in name ''DESeq2Log'' then Inr DESeq2Log
      else if py_in name ''EdgeR'' then Inr EdgeR
      else if py_in name ''REL'' then Inr REL
      else if py_in name ''RAW'' then Inr RAW
      else Inl (SystemExit ''Error, incorrect normalization method'' 1))"

text \<open>The body of each branch; the frame is genes x spots.\<close>

fun apply_normalization :: "externals \<Rightarrow> strategy \<Rightarrow> dataframe \<Rightarrow> dataframe" where
  "apply_normalization ext DESeq counts = df_div_cols counts (computeSizeFactors ext counts)"
| "apply_normalization ext DESeq2 counts = df_div_cols counts (computeSizeFactorsLinear ext counts)"
| "apply_normalization ext DESeq2Log counts = computeDESeq2LogTransform ext counts"
| "apply_normalization ext EdgeR counts =
     (let size_factors = computeEdgeRNormalization ext counts in
      map_cells (\<lambda>v. fmul v (np_mean size_factors)) (df_div_cols counts size_factors))"
| "apply_normalization ext REL counts =
     (let spots_sum = col_sums counts in df_div_cols counts spots_sum)"
| "apply_normalization ext RAW counts = counts"

definition per_spot_normalization :: "externals \<Rightarrow> string \<Rightarrow> dataframe \<Rightarrow> py_error + dataframe" where
  "per_spot_normalization ext name counts =
     py_bind (select_normalization name) (\<lambda>s. Inr (apply_normalization ext s counts))"

subsection \<open>Variance filter and the normalized tables (lines 187-205)\<close>

text \<open>\<open>q\<close> is \<^verbatim>\<open>num_genes_keep / 100.0\<close>; the frame is genes x spots.\<close>

definition variance_filter :: "real \<Rightarrow> dataframe \<Rightarrow> py_error + dataframe" where
  "variance_filter q norm_counts =
     py_bind (quantile (map (\<lambda>(s, r). variance r) (df_rows norm_counts)) q)
       (\<lambda>min_genes_spot_var.
          Inr (norm_counts\<lparr>df_rows :=
                 filter (\<lambda>(s, r). opt_ge_thr (variance r) min_genes_spot_var)
                   (df_rows norm_counts)\<rparr>))"

text \<open>Line 202: the spots of dataset \<open>i\<close>, by the prefix \<^verbatim>\<open>"{}_".format(i)\<close>.\<close>

definition spots_of_dataset :: "nat \<Rightarrow> string list \<Rightarrow> string list" where
  "spots_of_dataset i tot_spots = filter (\<lambda>spot. startswith spot (str_nat i @ ''_'')) tot_spots"

text \<open>Line 204: \<^verbatim>\<open>[spot.split("_")[1] for spot in spots_to_keep]\<close>.\<close>

definition strip_index :: "string list \<Rightarrow> py_error + string list" where
  "strip_index spots_to_keep = py_mapM (\<lambda>spot. py_nth (py_split CHR ''_'' spot) 1) spots_to_keep"

text \<open>One turn of the loop of lines 201-205; assigning an index of another length
  than the slice raises \<^verbatim>\<open>ValueError\<close>.\<close>

definition write_slice :: "string \<Rightarrow> dataframe \<Rightarrow> nat \<Rightarrow> unit run" where
  "write_slice od norm_counts i =
     (let spots_to_keep = spots_of_dataset i (df_index norm_counts);
          slice_counts = df_loc norm_counts spots_to_keep
      in run_bind (run_lift (strip_index spots_to_keep)) (\<lambda>new_index.
           if length new_index \<noteq> length slice_counts then run_lift (Inl ValueError)
           else run_emit
             [ToCsv (os_path_join od (''normalized_counts_'' @ str_nat i @ ''.tsv''))
                \<lparr>df_columns = df_columns norm_counts,
                 df_rows = zip new_index (map snd slice_counts)\<rparr>]))"

definition write_normalized :: "string \<Rightarrow> nat \<Rightarrow> dataframe \<Rightarrow> unit run" where
  "write_normalized od n norm_counts = run_iter (write_slice od norm_counts) [0..<n]"

subsection \<open>Clustering and colours (lines 230-271)\<close>

definition select_clustering :: "string \<Rightarrow> int \<Rightarrow> py_error + clusterer" where
  "select_clustering name k =
     (if py_in ''KMeans'' name then Inr (KMeans k)
      else if py_in ''Hierarchical'' name then Inr (AgglomerativeClustering k)
      else Inl (SystemExit ''Error, incorrect clustering method'' 1))"

text \<open>Line 252: \<^verbatim>\<open>if 0 in labels: labels = labels + 1\<close>.\<close>

definition shift_labels :: "int list \<Rightarrow> int list" where
  "shift_labels labels = (if 0 \<in> set labels then map (\<lambda>l. l + 1) labels else labels)"

text \<open>Lines 47-48.\<close>

definition linear_conv :: "real \<Rightarrow> real \<Rightarrow> real \<Rightarrow> real \<Rightarrow> real \<Rightarrow> fval" where
  "linear_conv old mn mx new_min new_max =
     fmul (fdiv (Fin (old - mn)) (Fin (mx - mn))) (Fin ((new_max - new_min) + new_min))"

text \<open>\<^verbatim>\<open>a[:, j]\<close>, and Python's \<^verbatim>\<open>max\<close> and \<^verbatim>\<open>min\<close> of a sequence.\<close>

definition nd_col :: "ndarray \<Rightarrow> nat \<Rightarrow> py_error + real list" where
  "nd_col a j = (if j < nd_ncols a then Inr (map (\<lambda>r. r ! j) (nd_rows a)) else Inl IndexError)"

fun py_max :: "real list \<Rightarrow> py_error + real" where
  "py_max [] = Inl ValueError"
| "py_max (x # xs) = Inr (fold max xs x)"

fun py_min :: "real list \<Rightarrow> py_error + real" where
  "py_min [] = Inl ValueError"
| "py_min (x # xs) = Inr (fold min xs x)"

text \<open>Lines 255-271, in the order of the statements.\<close>

definition color_encoder :: "int \<Rightarrow> ndarray \<Rightarrow> py_error + (fval \<times> fval \<times> fval) list" where
  "color_encoder nd reduced_data =
     py_bind (py_bind (nd_col reduced_data 0) py_max) (\<lambda>x_max.
     py_bind (py_bind (nd_col reduced_data 0) py_min) (\<lambda>x_min.
     py_bind (py_bind (nd_col reduced_data 1) py_max) (\<lambda>y_max.
     py_bind (py_bind (nd_col reduced_data 1) py_min) (\<lambda>y_min.
     py_bind (nd_col reduced_data 0) (\<lambda>x_p.
     py_bind (nd_col reduced_data 1) (\<lambda>y_p.
       if nd = 3
       then py_bind (nd_col reduced_data 3) (\<lambda>z_p.
            py_bind (py_bind (nd_col reduced_data 2) py_max) (\<lambda>z_max.
            py_bind (py_bind (nd_col reduced_data 2) py_min) (\<lambda>z_min.
              Inr (map (\<lambda>(x, y, z). (linear_conv x x_min x_max 0 1,
                                      linear_conv y y_min y_max 0 1,
                                      linear_conv z z_min z_max 0 1))
                     (zip x_p (zip y_p z_p))))))
       else Inr (map (\<lambda>(x, y, z). (linear_conv x x_min x_max 0 1,
                                    linear_conv y y_min y_max 0 1,
                                    Fin 1))
                   (zip x_p (zip y_p y_p)))))))))"

subsection \<open>Class files and tissue plots (lines 273-350)\<close>

text \<open>
  One turn of the loop of lines 303-314 over the spots left, \<open>n\<close> the number of
  datasets: the coordinates and the dataset index are parsed back from the combined
  identifier, and the lists of that dataset are extended.
\<close>

definition class_row ::
  "externals \<Rightarrow> nat \<Rightarrow> int list \<Rightarrow> (fval \<times> fval \<times> fval) list \<Rightarrow> nat \<times> string
     \<Rightarrow> py_error + (nat \<times> real \<times> real)"
where
  "class_row ext n labels labels_colors ibc =
     (let i = fst ibc;
          tokens = py_split CHR ''x'' (snd ibc)
      in if length tokens \<noteq> 2 then Inl AssertionError
         else (case py_float ext (tokens ! 1) of
                 None \<Rightarrow> Inl ValueError
               | Some y \<Rightarrow>
                   py_bind (py_nth (py_split CHR ''_'' (tokens ! 0)) 1) (\<lambda>xs.
                     (case py_float ext xs of
                        None \<Rightarrow> Inl ValueError
                      | Some x \<Rightarrow>
                          py_bind (py_int (py_split CHR ''_'' (tokens ! 0) ! 0)) (\<lambda>index.
                            if n \<le> index \<or> length labels \<le> i \<or> length labels_colors \<le> i
                            then Inl IndexError
                            else Inr (index, x, y))))))"

text \<open>One turn of the loop of lines 321-350 over the image files.\<close>

definition tissue_plots :: "externals \<Rightarrow> config \<Rightarrow> string \<Rightarrow> nat \<Rightarrow> nat \<times> string \<Rightarrow> unit run" where
  "tissue_plots ext cfg od n ii =
     (let i = fst ii; image = snd ii in
      if isfile ext image
      then run_bind
             (run_lift (case alignment_files cfg of
                          None \<Rightarrow> Inr ()
                        | Some al \<Rightarrow>
                            if i \<le> length al then py_bind (py_nth al i) (\<lambda>a. Inr ())
                            else Inr ()))
             (\<lambda>u. if n \<le> i then run_lift (Inl IndexError)
                   else run_emit
                     [WroteFile (os_path_join od
                        (''computed_classes_tissue_'' @ str_nat i @ ''.png'')),
                      WroteFile (os_path_join od
                        (''dimensionality_color_tissue_'' @ str_nat i @ ''.png''))])
      else run_return ())"

definition write_results ::
  "externals \<Rightarrow> config \<Rightarrow> string \<Rightarrow> dataframe \<Rightarrow> int list \<Rightarrow> (fval \<times> fval \<times> fval) list \<Rightarrow> unit run"
where
  "write_results ext cfg od norm_counts labels labels_colors =
     (let n = length (counts_table_files cfg) in
      run_bind (run_emit [WroteFile (os_path_join od ''computed_classes.png'')]) (\<lambda>u.
        if length labels \<noteq> length (df_index norm_counts) then run_lift (Inl AssertionError)
        else
          run_bind (run_emit
            (map (\<lambda>i. WroteFile (os_path_join od (''computed_classes_'' @ str_nat i @ ''.txt'')))
               [0..<n])) (\<lambda>u.
          run_bind (run_lift (py_mapM (class_row ext n labels labels_colors)
                                (enumerate 0 (df_index norm_counts)))) (\<lambda>placed.
          run_iter (tissue_plots ext cfg od n)
            (enumerate 0 (case image_files cfg of None \<Rightarrow> [] | Some im \<Rightarrow> im))))))"

subsection \<open>The script\<close>

text \<open>Lines 84-162: the merged, cleaned and filtered counts, genes x spots.\<close>

definition filtered_counts :: "externals \<Rightarrow> config \<Rightarrow> string \<Rightarrow> dataframe run" where
  "filtered_counts ext cfg od =
     run_bind (ingest ext cfg od) (\<lambda>st.
     run_bind (run_lift (sample_normalization ext cfg st)) (\<lambda>counts.
     run_bind (run_lift (spot_filter (num_exp_genes cfg / 100) counts)) (\<lambda>counts.
     run_return (gene_filter (df_transpose counts)))))"

text \<open>Lines 164-232: the reducer and the matrix it is going to be given, spots x genes.\<close>

definition reduction_input ::
  "externals \<Rightarrow> config \<Rightarrow> string \<Rightarrow> dataframe \<Rightarrow> (decomp_model \<times> dataframe) run"
where
  "reduction_input ext cfg od counts =
     run_bind (run_lift (per_spot_normalization ext (normalization cfg) counts)) (\<lambda>norm_counts.
     run_bind (run_lift (variance_filter (num_genes_keep cfg / 100) norm_counts)) (\<lambda>norm_counts.
     run_bind (write_normalized od (length (counts_table_files cfg)) (df_transpose norm_counts))
       (\<lambda>u.
     run_bind (run_lift (select_decomp (dimensionality_algorithm cfg) (num_dimensions cfg)))
       (\<lambda>decomp_model.
     run_return (decomp_model,
       if use_log_scale cfg then map_cells log2p1 (df_transpose norm_counts)
       else df_transpose norm_counts)))))"

text \<open>Lines 234-271: reduction, clustering, labels and colours.\<close>

definition classify ::
  "externals \<Rightarrow> config \<Rightarrow> decomp_model \<Rightarrow> dataframe
     \<Rightarrow> (int list \<times> (fval \<times> fval \<times> fval) list) run"
where
  "classify ext cfg decomp_model norm_counts =
     run_bind (run_emit [FitTransform decomp_model norm_counts]) (\<lambda>u.
     run_bind (run_lift (select_clustering (clustering_algorithm cfg) (num_clusters cfg)))
       (\<lambda>clustering.
     run_bind (run_emit
       [FitPredict clustering (fit_transform ext decomp_model norm_counts)]) (\<lambda>u.
     run_bind (run_lift (color_encoder (num_dimensions cfg)
                           (fit_transform ext decomp_model norm_counts))) (\<lambda>labels_colors.
     run_return
       (shift_labels (fit_predict ext clustering (fit_transform ext decomp_model norm_counts)),
        labels_colors)))))"

definition main :: "externals \<Rightarrow> config \<Rightarrow> unit run" where
  "main ext cfg =
     run_bind (run_lift (validate ext cfg)) (\<lambda>u.
     run_bind (filtered_counts ext cfg (resolve_outdir ext (outdir cfg))) (\<lambda>counts.
     run_bind (reduction_input ext cfg (resolve_outdir ext (outdir cfg)) counts) (\<lambda>dm.
     run_bind (classify ext cfg (fst dm) (snd dm)) (\<lambda>lc.
     write_results ext cfg (resolve_outdir ext (outdir cfg)) (snd dm) (fst lc) (snd lc)))))"

subsection \<open>Spot keys\<close>

text \<open>
  The keys the script expects in its input tables (the comments at lines 134 and 304, the
  assertions at lines 136 and 306 and the conversions at lines 307-308): two numeric
  tokens joined by the letter x, as \<^verbatim>\<open>12x7\<close> or \<^verbatim>\<open>12.5x7.25\<close>.
\<close>

definition numeric_token :: "string \<Rightarrow> bool" where
  "numeric_token s = (s \<noteq> [] \<and> list_all (\<lambda>c. c \<in> set ''0123456789.'') s)"

definition xy_key :: "string \<Rightarrow> bool" where
  "xy_key k = (case py_split CHR ''x'' k of
                 [X, Y] \<Rightarrow> numeric_token X \<and> numeric_token Y
               | _ \<Rightarrow> False)"

text \<open>The combined identifiers of the datasets \<open>(i, file)\<close>, in the order of ingestion.\<close>

definition tagged_index :: "externals \<Rightarrow> (nat \<times> string) list \<Rightarrow> string list" where
  "tagged_index ext ics =
     concat (map (\<lambda>(i, f). map (tag_spot i) (df_index (read_table ext f))) ics)"

subsection \<open>Output files\<close>

text \<open>
  A path lies in the directory \<open>d\<close> when it is \<^verbatim>\<open>os.path.join(d, name)\<close> for a plain
  file name; a list of events stays in \<open>d\<close> when every file it writes lies in \<open>d\<close>.
\<close>


definition in_dir :: "string \<Rightarrow> string \<Rightarrow> bool" where
  "in_dir d p = (\<exists>name. name \<noteq> [] \<and> CHR ''/'' \<notin> set name \<and> p = os_path_join d name)"

definition all_written_in :: "string \<Rightarrow> event list \<Rightarrow> bool" where
  "all_written_in d evs = list_all (in_dir d) (written_paths evs)"

subsection \<open>A sample run\<close>

text \<open>
  One table of three spots and two genes, the third spot without any count, read from
  \<^verbatim>\<open>a.tsv\<close> in the directory \<^verbatim>\<open>/work\<close>. The collaborators of the sample run are
  the simplest ones: every size factor is 1, the reducer places every spot at the
  origin and the clusterer puts every spot in cluster 0.
\<close>

definition sample_table :: dataframe where
  "sample_table =
     \<lparr>df_columns = [''g1'', ''g2''],
      df_rows = [(''1x1'', [Fin 2, Fin 4]), (''1x2'', [Fin 4, Fin 2]), (''1x3'', [Fin 0, Fin 0])]\<rparr>"

definition sample_ext :: externals where
  "sample_ext =
     \<lparr>isfile = (\<lambda>f. f = ''a.tsv''),
      isdir = (\<lambda>d. False),
      getcwd = ''/work'',
      abspath = (\<lambda>p. p),
      read_table = (\<lambda>f. sample_table),
      computeSizeFactors = (\<lambda>d. map (\<lambda>c. Fin 1) (df_columns d)),
      computeSizeFactorsLinear = (\<lambda>d. map (\<lambda>c. Fin 1) (df_columns d)),
      computeDESeq2LogTransform = (\<lambda>d. d),
      computeEdgeRNormalization = (\<lambda>d. map (\<lambda>c. Fin 1) (df_columns d)),
      fit_transform = (\<lambda>m d. \<lparr>nd_ncols = 2, nd_rows = map (\<lambda>r. [0, 0]) (df_rows d)\<rparr>),
      fit_predict = (\<lambda>c a. map (\<lambda>r. 0) (nd_rows a)),
      py_float = (\<lambda>s. None)\<rparr>"

definition sample_cfg :: config where
  "sample_cfg =
     \<lparr>counts_table_files = [''a.tsv''],
      normalization = ''REL'',
      num_clusters = 3,
      clustering_algorithm = ''KMeans'',
      dimensionality_algorithm = ''ICA'',
      use_log_scale = False,
      apply_sample_normalization = False,
      num_exp_genes = 0,
      num_genes_keep = 0,
      outdir = None,
      alignment_files = None,
      image_files = None,
      num_dimensions = 2\<rparr>"

text \<open>
  The frames of the sample run: after ingestion (spots x genes), after the quality
  filter (genes x spots), after the normalization \<^verbatim>\<open>REL\<close>, and as handed to the reducer
  (spots x genes).
\<close>


definition merged_sample :: dataframe where
  "merged_sample =
     \<lparr>df_columns = [''g1'', ''g2''],
      df_rows = [(''0_1x1'', [Fin 2, Fin 4]), (''0_1x2'', [Fin 4, Fin 2]),
                 (''0_1x3'', [Fin 0, Fin 0])]\<rparr>"

definition filtered_sample :: dataframe where
  "filtered_sample =
     \<lparr>df_columns = [''0_1x1'', ''0_1x2'', ''0_1x3''],
      df_rows = [(''g1'', [Fin 2, Fin 4, Fin 0]), (''g2'', [Fin 4, Fin 2, Fin 0])]\<rparr>"

definition rel_sample :: dataframe where
  "rel_sample =
     \<lparr>df_columns = [''0_1x1'', ''0_1x2'', ''0_1x3''],
      df_rows = [(''g1'', [Fin (1 / 3), Fin (2 / 3), NaN]),
                 (''g2'', [Fin (2 / 3), Fin (1 / 3), NaN])]\<rparr>"

definition reducer_sample :: dataframe where
  "reducer_sample =
     \<lparr>df_columns = [''g1'', ''g2''],
      df_rows = [(''0_1x1'', [Fin (1 / 3), Fin (2 / 3)]),
                 (''0_1x2'', [Fin (2 / 3), Fin (1 / 3)]),
                 (''0_1x3'', [NaN, NaN])]\<rparr>"

subsection \<open>Names of the normalizations\<close>

text \<open>
  The names the command line accepts for \<^verbatim>\<open>--normalization\<close> (line 359), and the exit
  of line 184-185.
\<close>


definition normalization_choices :: "string list" where
  "normalization_choices = [''RAW'', ''DESeq'', ''DESeq2'', ''DESeq2Log'', ''EdgeR'', ''REL'']"

definition incorrect_normalization :: py_error where
  "incorrect_normalization = SystemExit ''Error, incorrect normalization method'' 1"

section \<open>Properties\<close>

subsection \<open>Substrings\<close>

lemma startswith_append: "startswith s p \<longleftrightarrow> (\<exists>r. s = p @ r)"
  by (induction s p rule: startswith.induct) auto

lemma py_in_iff: "py_in sub s \<longleftrightarrow> (\<exists>l r. s = l @ sub @ r)"
proof (induction s)
  case Nil
  then show ?case by auto
next
  case (Cons c cs)
  show ?case
  proof
    assume "py_in sub (c # cs)"
    then consider "startswith (c # cs) sub" | "py_in sub cs" by auto
    then show "\<exists>l r. c # cs = l @ sub @ r"
    proof cases
      case 1
      then obtain r where "c # cs = sub @ r" by (auto simp: startswith_append)
      then have "c # cs = [] @ sub @ r" by simp
      then show ?thesis by blast
    next
      case 2
      then obtain l r where "cs = l @ sub @ r" using Cons.IH by auto
      then have "c # cs = (c # l) @ sub @ r" by simp
      then show ?thesis by blast
    qed
  next
    assume "\<exists>l r. c # cs = l @ sub @ r"
    then obtain l r where eq: "c # cs = l @ sub @ r" by auto
    show "py_in sub (c # cs)"
    proof (cases l)
      case Nil
      with eq have "startswith (c # cs) sub" by (auto simp: startswith_append)
      then show ?thesis by simp
    next
      case (Cons a l')
      with eq have "cs = l' @ sub @ r" by simp
      then have "py_in sub cs" using Cons.IH by blast
      then show ?thesis by simp
    qed
  qed
qed

lemma py_in_trans: "py_in a b \<Longrightarrow> py_in b s \<Longrightarrow> py_in a s"
proof -
  assume "py_in a b" and "py_in b s"
  then obtain l r l' r' where "b = l @ a @ r" and "s = l' @ b @ r'"
    by (auto simp: py_in_iff)
  then have "s = (l' @ l) @ a @ (r @ r')" by simp
  then show ?thesis unfolding py_in_iff by blast
qed

lemma PCA_in_SPCA: "py_in ''PCA'' ''SPCA''"
  by simp

subsection \<open>Dimensionality reduction\<close>

text \<open>
  C2. The claim is that the variant SPCA runs sparse PCA with regularisation strength 1.
  In the script the test for \<^verbatim>\<open>"PCA"\<close> comes before the test for \<^verbatim>\<open>"SPCA"\<close>
  and both are substring tests, so the name \<^verbatim>\<open>SPCA\<close> builds the whitened PCA, and no
  name at all builds the sparse PCA.
\<close>

theorem select_decomp_SPCA_is_PCA:
  "select_decomp ''SPCA'' n = Inr (PCA n True True)
   \<and> (\<forall>s m a. select_decomp s n \<noteq> Inr (SparsePCA m a))"
proof
  show "select_decomp ''SPCA'' n = Inr (PCA n True True)"
    by (simp add: select_decomp_def)
next
  show "\<forall>s m a. select_decomp s n \<noteq> Inr (SparsePCA m a)"
  proof (intro allI)
    fix s m a
    have "py_in ''SPCA'' s \<Longrightarrow> py_in ''PCA'' s"
      using py_in_trans [OF PCA_in_SPCA] .
    then show "select_decomp s n \<noteq> Inr (SparsePCA m a)"
      by (auto simp: select_decomp_def)
  qed
qed

subsection \<open>Validation\<close>

text \<open>
  C9. The validation of lines 64-74 raises \<^verbatim>\<open>TypeError\<close> (the length of
  \<^verbatim>\<open>None\<close>) exactly when the input files are all present, no image list is given
  and a non-empty alignment list is given; in every other case it passes or exits with a
  configuration error. So the check of the alignment count needs the image list.
\<close>

theorem validate_TypeError_iff:
  "validate ext cfg = Inl TypeError \<longleftrightarrow>
     (counts_table_files cfg \<noteq> []
      \<and> list_all (isfile ext) (counts_table_files cfg)
      \<and> image_files cfg = None
      \<and> (\<exists>al. alignment_files cfg = Some al \<and> al \<noteq> []))"
  by (auto simp: validate_def list_ex_iff list_all_iff split: option.splits)

theorem validate_TypeError_witness:
  "validate sample_ext (sample_cfg\<lparr>alignment_files := Some [''al.txt'']\<rparr>) = Inl TypeError"
  using validate_TypeError_iff [of sample_ext "sample_cfg\<lparr>alignment_files := Some [''al.txt'']\<rparr>"]
  by (simp add: sample_ext_def sample_cfg_def)

subsection \<open>Per spot normalization\<close>

text \<open>
  C8. With the strategy \<^verbatim>\<open>RAW\<close> the per spot normalization returns the filtered
  count matrix unchanged.
\<close>

theorem raw_normalization_identity:
  "per_spot_normalization ext ''RAW'' counts = Inr counts"
  by (simp add: per_spot_normalization_def select_normalization_def py_bind_def)

subsection \<open>Cluster labels\<close>

text \<open>
  C6. The clusterers of scikit-learn number their clusters from 0, so the labels of
  \<^verbatim>\<open>fit_predict\<close> are not negative. Then every label after line 252 is at least 1:
  when 0 occurs among the labels, 1 is added to each of them, otherwise they are kept;
  in both cases two spots share their label after the step exactly when they shared it
  before.
\<close>

theorem shift_labels_one_based:
  assumes "\<forall>l\<in>set labels. 0 \<le> l"
  shows "(\<forall>l\<in>set (shift_labels labels). 1 \<le> l)
       \<and> (0 \<in> set labels \<longrightarrow> shift_labels labels = map (\<lambda>l. l + 1) labels)
       \<and> (0 \<notin> set labels \<longrightarrow> shift_labels labels = labels)
       \<and> length (shift_labels labels) = length labels
       \<and> (\<forall>i<length labels. \<forall>j<length labels.
            (shift_labels labels ! i = shift_labels labels ! j) = (labels ! i = labels ! j))"
proof -
  have nonzero: "0 \<notin> set labels \<Longrightarrow> \<forall>l\<in>set labels. 1 \<le> l"
  proof
    fix l assume "0 \<notin> set labels" and "l \<in> set labels"
    with assms have "0 \<le> l" and "l \<noteq> 0" by auto
    then show "1 \<le> l" by simp
  qed
  show ?thesis
  proof (cases "0 \<in> set labels")
    case True
    then have eq: "shift_labels labels = map (\<lambda>l. l + 1) labels"
      by (simp add: shift_labels_def)
    from assms have "\<forall>l\<in>set (map (\<lambda>l. l + 1) labels). 1 \<le> l" by auto
    with True eq show ?thesis by simp
  next
    case False
    then have eq: "shift_labels labels = labels"
      by (simp add: shift_labels_def)
    with False nonzero show ?thesis by simp
  qed
qed

theorem shift_labels_witness:
  "shift_labels [0, 2, 0, 1] = [1, 3, 1, 2] \<and> list_all (\<lambda>l. 1 \<le> l) (shift_labels [0, 2, 0, 1])"
proof -
  have h: "\<forall>l\<in>set [0, 2, 0, 1 :: int]. 0 \<le> l" by simp
  show ?thesis
    using shift_labels_one_based [OF h] by (simp add: shift_labels_def)
qed

subsection \<open>Colours\<close>

text \<open>
  C3. The claim is that the colours are computed without reading a coordinate that does
  not exist, the blue channel of a reduction to three dimensions from the third axis.
  Line 264 reads \<^verbatim>\<open>reduced_data[:,3]\<close>, the fourth column: on the three columns of a
  reduction to three dimensions the colour encoder never returns. It raises
  \<^verbatim>\<open>IndexError\<close> there (and \<^verbatim>\<open>ValueError\<close> at line 256 when there is no spot at all).
\<close>

theorem color_encoder_3d_raises:
  assumes "nd_ncols a = 3"
  shows "color_encoder 3 a = Inl (if nd_rows a = [] then ValueError else IndexError)"
proof (cases "nd_rows a")
  case Nil
  with assms show ?thesis
    by (simp add: color_encoder_def nd_col_def py_bind_def)
next
  case (Cons r rs)
  with assms show ?thesis
    by (simp add: color_encoder_def nd_col_def py_bind_def)
qed

theorem color_encoder_3d_witness:
  "color_encoder 3 \<lparr>nd_ncols = 3, nd_rows = [[0, 0, 0], [1, 1, 1]]\<rparr> = Inl IndexError"
  using color_encoder_3d_raises [of "\<lparr>nd_ncols = 3, nd_rows = [[0, 0, 0], [1, 1, 1]]\<rparr>"]
  by simp

text \<open>
  Apart from that, an axis that is constant over the spots makes \<open>linear_conv\<close> divide
  zero by zero: the component is NaN, in two dimensions as well.
\<close>

lemma color_encoder_constant_axis:
  "color_encoder 2 \<lparr>nd_ncols = 2, nd_rows = [[1, 0], [1, 1]]\<rparr>
     = Inr [(NaN, Fin 0, Fin 1), (NaN, Fin 1, Fin 1)]"
  by (simp add: color_encoder_def nd_col_def py_bind_def linear_conv_def)

subsection \<open>Spot filter\<close>

lemma py_round_nat: "py_round (real n) = real n"
proof -
  have "\<lfloor>real n + 1 / 2\<rfloor> = int n" by linarith
  then show ?thesis by (simp add: py_round_def)
qed

lemma sort_nth0_le: "x \<in> set xs \<Longrightarrow> sort xs ! 0 \<le> (x::real)"
proof -
  assume "x \<in> set xs"
  then have "x \<in> set (sort xs)" by simp
  then obtain i where "i < length (sort xs)" and "sort xs ! i = x"
    unfolding in_set_conv_nth by blast
  moreover have "sorted (sort xs)" by simp
  ultimately show ?thesis
    using sorted_nth_mono [of "sort xs" 0 i] by auto
qed

lemma quantile_zero:
  "xs \<noteq> [] \<Longrightarrow> quantile (map Some xs) 0 = Inr (Some (sort xs ! 0))"
proof -
  assume "xs \<noteq> []"
  then have "length (sort xs) \<noteq> 0" by simp
  then have "sort xs \<noteq> []" by (simp only: length_0_conv not_False_eq_True)
  then show ?thesis
    by (simp add: quantile_def o_def filter_map Let_def)
qed

lemma quantile_total:
  "0 \<le> q \<Longrightarrow> q \<le> 1 \<Longrightarrow> \<exists>v. quantile series q = Inr v"
  by (simp add: quantile_def Let_def)

text \<open>
  C7. For a percentage \<open>p\<close> between 0 and 100 the spot filter of lines 146-152 returns
  a frame, with at most as many spots as it was given; for \<open>p = 0\<close> it returns the
  frame it was given.
\<close>

theorem spot_filter_monotone:
  assumes "0 \<le> p" and "p \<le> 100"
  shows "\<exists>c. spot_filter (p / 100) counts = Inr c
           \<and> length (df_rows c) \<le> length (df_rows counts)
           \<and> (p = 0 \<longrightarrow> c = counts)"
proof -
  let ?series = "map (\<lambda>(s, r). Some (real (nonzero_count r))) (df_rows counts)"
  from assms obtain v where v: "quantile ?series (p / 100) = Inr v"
    using quantile_total [of "p / 100" ?series] by auto
  let ?keep = "\<lambda>(s, r). ge_thr (real (nonzero_count r)) (map_option py_round v)"
  let ?c = "counts\<lparr>df_rows := filter ?keep (df_rows counts)\<rparr>"
  have res: "spot_filter (p / 100) counts = Inr ?c"
    using v by (simp add: spot_filter_def py_bind_def)
  have len: "length (df_rows ?c) \<le> length (df_rows counts)" by simp
  have "?c = counts" if "p = 0"
  proof (cases "df_rows counts = []")
    case True
    then show ?thesis by simp
  next
    case False
    let ?xs = "map (\<lambda>(s, r). real (nonzero_count r)) (df_rows counts)"
    have ser: "?series = map Some ?xs" by (simp add: case_prod_beta)
    from False have ne: "?xs \<noteq> []" by simp
    have "v = Some (sort ?xs ! 0)"
      using v that quantile_zero [OF ne] unfolding ser by simp
    moreover have "sort ?xs ! 0 \<in> set ?xs"
    proof -
      from ne have "0 < length (sort ?xs)" by simp
      then have "sort ?xs ! 0 \<in> set (sort ?xs)" by (rule nth_mem)
      then show ?thesis by simp
    qed
    then obtain m where m: "sort ?xs ! 0 = real m" by auto
    ultimately have thr: "map_option py_round v = Some (sort ?xs ! 0)"
      by (simp add: py_round_nat)
    have "\<forall>sr\<in>set (df_rows counts). ?keep sr"
    proof
      fix sr assume "sr \<in> set (df_rows counts)"
      then have "real (nonzero_count (snd sr)) \<in> set ?xs" by (force simp: case_prod_beta)
      then have "sort ?xs ! 0 \<le> real (nonzero_count (snd sr))" by (rule sort_nth0_le)
      then show "?keep sr" by (simp add: thr ge_thr_def case_prod_beta)
    qed
    then have "filter ?keep (df_rows counts) = df_rows counts" by (simp add: filter_id_conv)
    then show ?thesis by simp
  qed
  with res len show ?thesis by blast
qed

theorem spot_filter_witness:
  "spot_filter (0 / 100) sample_table = Inr sample_table"
proof -
  have h0: "(0::real) \<le> 0" and h1: "(0::real) \<le> 100" by simp_all
  show ?thesis
    using spot_filter_monotone [OF h0 h1, of sample_table] by auto
qed

subsection \<open>Spot identifiers\<close>

lemma digit_char_digit: "d < 10 \<Longrightarrow> digit_char d \<in> set ''0123456789''"
  unfolding digit_char_def by (rule nth_mem) simp

lemma digit_char_inj: "a < 10 \<Longrightarrow> b < 10 \<Longrightarrow> digit_char a = digit_char b \<Longrightarrow> a = b"
proof -
  assume a: "a < 10" and b: "b < 10" and eq: "digit_char a = digit_char b"
  have d: "distinct ''0123456789''" by simp
  have "a < length ''0123456789''" and "b < length ''0123456789''" using a b by simp_all
  with d eq show "a = b" unfolding digit_char_def by (simp only: nth_eq_iff_index_eq)
qed

lemma str_nat_digits: "c \<in> set (str_nat n) \<Longrightarrow> c \<in> set ''0123456789''"
proof (induction n rule: str_nat.induct)
  case (1 n)
  show ?case
  proof (cases "n < 10")
    case True
    with "1.prems" have "c = digit_char n" by (simp add: str_nat.simps [of n])
    with True show ?thesis using digit_char_digit by blast
  next
    case False
    with "1.prems" have "c \<in> set (str_nat (n div 10)) \<or> c = digit_char (n mod 10)"
      by (auto simp: str_nat.simps [of n])
    moreover have "digit_char (n mod 10) \<in> set ''0123456789''"
      by (rule digit_char_digit) simp
    ultimately show ?thesis using "1.IH" [OF False] by blast
  qed
qed

lemma str_nat_no_underscore: "CHR ''_'' \<notin> set (str_nat n)"
  using str_nat_digits [of "CHR ''_''" n] by auto

lemma str_nat_no_slash: "CHR ''/'' \<notin> set (str_nat n)"
  using str_nat_digits [of "CHR ''/''" n] by auto

lemma str_nat_nonempty: "str_nat n \<noteq> []"
  by (subst str_nat.simps) simp

lemma str_nat_inj: "str_nat a = str_nat b \<Longrightarrow> a = b"
proof (induction a arbitrary: b rule: str_nat.induct)
  case (1 a)
  show ?case
  proof (cases "a < 10")
    case True
    then have sa: "str_nat a = [digit_char a]" by (simp add: str_nat.simps [of a])
    show ?thesis
    proof (cases "b < 10")
      case b: True
      then have "str_nat b = [digit_char b]" by (simp add: str_nat.simps [of b])
      with sa "1.prems" have "digit_char a = digit_char b" by simp
      with True b show ?thesis by (rule digit_char_inj)
    next
      case False
      then have "str_nat b = str_nat (b div 10) @ [digit_char (b mod 10)]"
        by (simp add: str_nat.simps [of b])
      with sa "1.prems" have "str_nat (b div 10) = []" by simp
      then show ?thesis using str_nat_nonempty by blast
    qed
  next
    case False
    then have sa: "str_nat a = str_nat (a div 10) @ [digit_char (a mod 10)]"
      by (simp add: str_nat.simps [of a])
    show ?thesis
    proof (cases "b < 10")
      case True
      then have "str_nat b = [digit_char b]" by (simp add: str_nat.simps [of b])
      with sa "1.prems" have "str_nat (a div 10) = []" by simp
      then show ?thesis using str_nat_nonempty by blast
    next
      case b: False
      then have "str_nat b = str_nat (b div 10) @ [digit_char (b mod 10)]"
        by (simp add: str_nat.simps [of b])
      with sa "1.prems" have hi: "str_nat (a div 10) = str_nat (b div 10)"
        and lo: "digit_char (a mod 10) = digit_char (b mod 10)" by simp_all
      from "1.IH" [OF False hi] have "a div 10 = b div 10" .
      moreover have "a mod 10 = b mod 10"
        by (rule digit_char_inj [OF _ _ lo]) simp_all
      ultimately show ?thesis by (metis div_mult_mod_eq)
    qed
  qed
qed

lemma py_split_nonempty: "py_split sep s \<noteq> []"
  by (induction s) (auto split: list.splits)

lemma py_split_first: "sep \<notin> set xs \<Longrightarrow> py_split sep (xs @ sep # ys) = xs # py_split sep ys"
  by (induction xs) auto

lemma py_split_none: "sep \<notin> set xs \<Longrightarrow> py_split sep xs = [xs]"
  by (induction xs) auto

lemma py_split_covers:
  "c \<in> set s \<Longrightarrow> c \<noteq> sep \<Longrightarrow> \<exists>t\<in>set (py_split sep s). c \<in> set t"
proof (induction s)
  case Nil
  then show ?case by simp
next
  case (Cons a s)
  obtain t ts where sp: "py_split sep s = t # ts"
    using py_split_nonempty [of sep s] by (cases "py_split sep s") auto
  show ?case
  proof (cases "c = a")
    case True
    with Cons.prems sp show ?thesis by auto
  next
    case False
    with Cons have "\<exists>t\<in>set (py_split sep s). c \<in> set t" by auto
    with sp show ?thesis by (cases "a = sep") auto
  qed
qed

lemma numeric_token_no_underscore: "numeric_token t \<Longrightarrow> CHR ''_'' \<notin> set t"
  by (auto simp: numeric_token_def list_all_iff)

lemma xy_key_no_underscore: "xy_key k \<Longrightarrow> CHR ''_'' \<notin> set k"
proof
  assume xy: "xy_key k" and mem: "CHR ''_'' \<in> set k"
  from xy obtain X Y where sp: "py_split CHR ''x'' k = [X, Y]"
    and "numeric_token X" and "numeric_token Y"
    by (auto simp: xy_key_def split: list.splits)
  then have no: "CHR ''_'' \<notin> set X" "CHR ''_'' \<notin> set Y"
    using numeric_token_no_underscore by auto
  have "\<exists>t\<in>set (py_split CHR ''x'' k). CHR ''_'' \<in> set t"
    by (rule py_split_covers [OF mem]) simp
  with sp no show False by auto
qed

lemma sep_append_eq:
  assumes "(sep::char) \<notin> set xs" and "sep \<notin> set xs'" and "xs @ sep # ys = xs' @ sep # ys'"
  shows "xs = xs' \<and> ys = ys'"
proof -
  have "py_split sep (xs @ sep # ys) = py_split sep (xs' @ sep # ys')"
    using assms(3) by simp
  then have "xs = xs'" using assms(1,2) by (simp add: py_split_first)
  with assms(3) show ?thesis by simp
qed

lemma tag_spot_inj: "tag_spot i k = tag_spot j k' \<Longrightarrow> i = j \<and> k = k'"
proof -
  assume "tag_spot i k = tag_spot j k'"
  then have "str_nat i @ CHR ''_'' # k = str_nat j @ CHR ''_'' # k'"
    by (simp add: tag_spot_def)
  then have "str_nat i = str_nat j \<and> k = k'"
    by (rule sep_append_eq [OF str_nat_no_underscore str_nat_no_underscore])
  then show ?thesis using str_nat_inj by blast
qed

lemma startswith_tag: "startswith (tag_spot i k) (str_nat j @ ''_'') \<longleftrightarrow> i = j"
proof
  assume "startswith (tag_spot i k) (str_nat j @ ''_'')"
  then obtain r where "tag_spot i k = (str_nat j @ ''_'') @ r"
    by (auto simp: startswith_append)
  then have "str_nat i @ CHR ''_'' # k = str_nat j @ CHR ''_'' # r"
    by (simp add: tag_spot_def)
  then have "str_nat i = str_nat j \<and> k = r"
    by (rule sep_append_eq [OF str_nat_no_underscore str_nat_no_underscore])
  then show "i = j" using str_nat_inj by blast
next
  assume "i = j"
  then show "startswith (tag_spot i k) (str_nat j @ ''_'')"
    by (simp add: startswith_append tag_spot_def)
qed

lemma strip_tag: "CHR ''_'' \<notin> set k \<Longrightarrow> py_nth (py_split CHR ''_'' (tag_spot i k)) (Suc 0) = Inr k"
  by (simp add: tag_spot_def py_split_first [OF str_nat_no_underscore] py_split_none py_nth_def)

lemma strip_index_tags:
  "\<forall>k\<in>set ks. CHR ''_'' \<notin> set k \<Longrightarrow> strip_index (map (tag_spot i) ks) = Inr ks"
  unfolding strip_index_def
  by (induction ks) (simp_all add: strip_tag py_bind_def)


lemma df_index_append: "df_index (df_append a b) = df_index a @ df_index b"
  by (simp add: df_index_def df_append_def Let_def o_def case_prod_beta)

lemma df_index_tag_spots: "df_index (tag_spots i d) = map (tag_spot i) (df_index d)"
  by (simp add: df_index_def tag_spots_def o_def case_prod_beta)

lemma df_index_replace_nan_inf: "df_index (replace_nan_inf d) = df_index d"
  by (simp add: df_index_def replace_nan_inf_def df_fillna_def map_cells_def o_def case_prod_beta)

lemma ingest_loop_index:
  "df_index (fst (snd (ingest_loop ext od sn ics st)))
     = df_index (fst st) @ tagged_index ext ics"
proof (induction ics arbitrary: st)
  case Nil
  then show ?case by (simp add: tagged_index_def)
next
  case (Cons ic ics)
  have "df_index (fst (snd (ingest_file ext od sn ic st)))
          = df_index (fst st) @ map (tag_spot (fst ic)) (df_index (read_table ext (snd ic)))"
    by (simp add: ingest_file_def Let_def df_index_append df_index_tag_spots)
  with Cons.IH [of "snd (ingest_file ext od sn ic st)"] show ?case
    by (simp add: Let_def tagged_index_def case_prod_beta)
qed

lemma ingest_index:
  "\<exists>counts sc. snd (ingest ext cfg od) = Inr (counts, sc)
      \<and> df_index counts = tagged_index ext (enumerate 0 (counts_table_files cfg))"
proof -
  have "df_index df_empty = []" by (simp add: df_index_def df_empty_def)
  then show ?thesis
    by (simp add: ingest_def Let_def df_index_replace_nan_inf ingest_loop_index)
qed

lemma tagged_index_members:
  "s \<in> set (tagged_index ext (enumerate k fs)) \<Longrightarrow> \<exists>j key. k \<le> j \<and> s = tag_spot j key"
  by (auto simp: tagged_index_def in_set_enumerate_eq)

lemma tagged_index_distinct:
  "\<forall>f\<in>set fs. distinct (df_index (read_table ext f))
     \<Longrightarrow> distinct (tagged_index ext (enumerate k fs))"
proof (induction fs arbitrary: k)
  case Nil
  then show ?case by (simp add: tagged_index_def)
next
  case (Cons f fs)
  let ?here = "map (tag_spot k) (df_index (read_table ext f))"
  have split: "tagged_index ext (enumerate k (f # fs)) = ?here @ tagged_index ext (enumerate (Suc k) fs)"
    by (simp add: tagged_index_def)
  have "inj_on (tag_spot k) (set (df_index (read_table ext f)))"
    using tag_spot_inj by (auto intro: inj_onI)
  then have d1: "distinct ?here" using Cons.prems by (simp add: distinct_map)
  have d2: "distinct (tagged_index ext (enumerate (Suc k) fs))"
    using Cons.IH Cons.prems by simp
  have "set ?here \<inter> set (tagged_index ext (enumerate (Suc k) fs)) = {}"
  proof (rule ccontr)
    assume "\<not> ?thesis"
    then obtain s where a: "s \<in> set ?here" and b: "s \<in> set (tagged_index ext (enumerate (Suc k) fs))"
      by blast
    from a obtain key where "s = tag_spot k key" by auto
    moreover from b obtain j key' where "Suc k \<le> j" and "s = tag_spot j key'"
      using tagged_index_members by blast
    ultimately show False using tag_spot_inj by fastforce
  qed
  with d1 d2 show ?case unfolding split by simp
qed

lemma spots_of_dataset_tagged:
  "spots_of_dataset i (filter P (tagged_index ext (enumerate k fs)))
     = (if k \<le> i \<and> i < k + length fs
        then map (tag_spot i) (filter (\<lambda>key. P (tag_spot i key)) (df_index (read_table ext (fs ! (i - k)))))
        else [])"
proof (induction fs arbitrary: k)
  case Nil
  then show ?case by (auto simp: tagged_index_def spots_of_dataset_def)
next
  case (Cons f fs)
  have split: "tagged_index ext (enumerate k (f # fs))
      = map (tag_spot k) (df_index (read_table ext f)) @ tagged_index ext (enumerate (Suc k) fs)"
    by (simp add: tagged_index_def)
  have here: "spots_of_dataset i (filter P (map (tag_spot k) ks))
      = (if i = k then map (tag_spot i) (filter (\<lambda>key. P (tag_spot i key)) ks) else [])" for ks
    by (induction ks) (auto simp: spots_of_dataset_def startswith_tag)
  have app: "spots_of_dataset i (filter P (xs @ ys))
      = spots_of_dataset i (filter P xs) @ spots_of_dataset i (filter P ys)" for xs ys
    by (simp add: spots_of_dataset_def)
  show ?case
  proof (cases "i = k")
    case True
    then show ?thesis unfolding split app here Cons.IH by simp
  next
    case False
    then show ?thesis unfolding split app here Cons.IH
      by (auto simp: nth_Cons')
  qed
qed

text \<open>
  C5. When the keys of every dataset have the form XxY and are distinct within the
  dataset, the index of the merged frame lists, dataset after dataset, the identifiers
  \<^verbatim>\<open>"{i}_{k}"\<close>; these are distinct; and for every dataset \<open>i\<close> and whatever
  selection \<open>P\<close> of the spots is left at line 200, the spots that start with
  \<^verbatim>\<open>"{i}_"\<close>, stripped as at line 204, are the original keys of dataset \<open>i\<close> that
  were selected, in their order.
\<close>

theorem spot_identifiers_round_trip:
  assumes "\<forall>f\<in>set (counts_table_files cfg). \<forall>k\<in>set (df_index (read_table ext f)). xy_key k"
    and "\<forall>f\<in>set (counts_table_files cfg). distinct (df_index (read_table ext f))"
  shows "\<exists>counts sc. snd (ingest ext cfg od) = Inr (counts, sc)
      \<and> df_index counts
          = concat (map (\<lambda>(i, f). map (\<lambda>k. str_nat i @ ''_'' @ k) (df_index (read_table ext f)))
                      (enumerate 0 (counts_table_files cfg)))
      \<and> distinct (df_index counts)
      \<and> (\<forall>i<length (counts_table_files cfg). \<forall>P.
            strip_index (spots_of_dataset i (filter P (df_index counts)))
              = Inr (filter (\<lambda>k. P (str_nat i @ ''_'' @ k))
                       (df_index (read_table ext (counts_table_files cfg ! i)))))"
proof -
  let ?fs = "counts_table_files cfg"
  obtain counts sc where run: "snd (ingest ext cfg od) = Inr (counts, sc)"
    and idx: "df_index counts = tagged_index ext (enumerate 0 ?fs)"
    using ingest_index by blast
  have fmt: "tagged_index ext (enumerate 0 ?fs)
      = concat (map (\<lambda>(i, f). map (\<lambda>k. str_nat i @ ''_'' @ k) (df_index (read_table ext f)))
                  (enumerate 0 ?fs))"
    by (simp add: tagged_index_def tag_spot_def [abs_def])
  have dist: "distinct (df_index counts)"
    unfolding idx using assms(2) by (rule tagged_index_distinct)
  have rt: "strip_index (spots_of_dataset i (filter P (df_index counts)))
      = Inr (filter (\<lambda>k. P (str_nat i @ ''_'' @ k)) (df_index (read_table ext (?fs ! i))))"
    if "i < length ?fs" for i P
  proof -
    let ?ks = "filter (\<lambda>key. P (tag_spot i key)) (df_index (read_table ext (?fs ! i)))"
    have "spots_of_dataset i (filter P (df_index counts)) = map (tag_spot i) ?ks"
      unfolding idx spots_of_dataset_tagged using that by simp
    moreover have "\<forall>k\<in>set ?ks. CHR ''_'' \<notin> set k"
    proof
      fix k assume "k \<in> set ?ks"
      then have "k \<in> set (df_index (read_table ext (?fs ! i)))" by simp
      moreover from that have "?fs ! i \<in> set ?fs" by simp
      ultimately have "xy_key k" using assms(1) by blast
      then show "CHR ''_'' \<notin> set k" by (rule xy_key_no_underscore)
    qed
    ultimately have "strip_index (spots_of_dataset i (filter P (df_index counts))) = Inr ?ks"
      by (simp add: strip_index_tags)
    then show ?thesis by (simp add: tag_spot_def)
  qed
  from run idx fmt dist rt show ?thesis by auto
qed


theorem spot_identifiers_witness:
  "\<exists>counts sc. snd (ingest sample_ext sample_cfg ''/work'') = Inr (counts, sc)
      \<and> df_index counts = [''0_1x1'', ''0_1x2'', ''0_1x3'']
      \<and> distinct (df_index counts)
      \<and> strip_index (spots_of_dataset 0 (df_index counts)) = Inr [''1x1'', ''1x2'', ''1x3'']"
proof -
  have keys: "df_index (read_table sample_ext f) = [''1x1'', ''1x2'', ''1x3'']" for f
    by (simp add: sample_ext_def sample_table_def df_index_def)
  have files: "counts_table_files sample_cfg = [''a.tsv'']"
    by (simp add: sample_cfg_def)
  have h1: "\<forall>f\<in>set (counts_table_files sample_cfg).
              \<forall>k\<in>set (df_index (read_table sample_ext f)). xy_key k"
    by (simp add: keys xy_key_def numeric_token_def)
  have h2: "\<forall>f\<in>set (counts_table_files sample_cfg). distinct (df_index (read_table sample_ext f))"
    by (simp add: keys)
  obtain counts sc where run: "snd (ingest sample_ext sample_cfg ''/work'') = Inr (counts, sc)"
    and idx: "df_index counts = [''0_1x1'', ''0_1x2'', ''0_1x3'']"
    and dist: "distinct (df_index counts)"
    and rt: "\<forall>i<length (counts_table_files sample_cfg). \<forall>P.
            strip_index (spots_of_dataset i (filter P (df_index counts)))
              = Inr (filter (\<lambda>k. P (str_nat i @ ''_'' @ k))
                       (df_index (read_table sample_ext (counts_table_files sample_cfg ! i))))"
    using spot_identifiers_round_trip [OF h1 h2, of "''/work''"]
    by (auto simp: keys files str_nat.simps [of 0] digit_char_def)
  have "0 < length (counts_table_files sample_cfg)" by (simp add: files)
  with rt have "strip_index (spots_of_dataset 0 (filter (\<lambda>s. True) (df_index counts)))
      = Inr (filter (\<lambda>k. True) (df_index (read_table sample_ext (counts_table_files sample_cfg ! 0))))"
    by blast
  then have "strip_index (spots_of_dataset 0 (df_index counts)) = Inr [''1x1'', ''1x2'', ''1x3'']"
    by (simp add: keys)
  with run idx dist show ?thesis by blast
qed

subsection \<open>Output directory\<close>

lemma in_dir_join: "name \<noteq> [] \<Longrightarrow> CHR ''/'' \<notin> set name \<Longrightarrow> in_dir d (os_path_join d name)"
  unfolding in_dir_def by blast

lemma all_written_in_Nil: "all_written_in d []"
  by (simp add: all_written_in_def written_paths_def)

lemma all_written_in_append:
  "all_written_in d (a @ b) \<longleftrightarrow> all_written_in d a \<and> all_written_in d b"
  by (simp add: all_written_in_def written_paths_def)

lemma all_written_in_WroteFile:
  "all_written_in d (WroteFile p # evs) \<longleftrightarrow> in_dir d p \<and> all_written_in d evs"
  by (simp add: all_written_in_def written_paths_def)

lemma all_written_in_ToCsv:
  "all_written_in d (ToCsv p t # evs) \<longleftrightarrow> in_dir d p \<and> all_written_in d evs"
  by (simp add: all_written_in_def written_paths_def)

lemma all_written_in_FitTransform:
  "all_written_in d (FitTransform m t # evs) \<longleftrightarrow> all_written_in d evs"
  by (simp add: all_written_in_def written_paths_def)

lemma all_written_in_FitPredict:
  "all_written_in d (FitPredict c a # evs) \<longleftrightarrow> all_written_in d evs"
  by (simp add: all_written_in_def written_paths_def)

lemmas all_written_in_simps =
  all_written_in_Nil all_written_in_append all_written_in_WroteFile all_written_in_ToCsv
  all_written_in_FitTransform all_written_in_FitPredict

lemma run_bind_written:
  assumes "all_written_in d (fst m)" and "\<And>v. all_written_in d (fst (f v))"
  shows "all_written_in d (fst (run_bind m f))"
  using assms by (cases "snd m") (simp_all add: run_bind_def all_written_in_append)

lemma run_lift_written: "all_written_in d (fst (run_lift r))"
  by (simp add: run_lift_def all_written_in_Nil)

lemma run_return_written: "all_written_in d (fst (run_return v))"
  by (simp add: run_return_def all_written_in_Nil)

lemma run_iter_written:
  assumes "\<And>x. all_written_in d (fst (f x))"
  shows "all_written_in d (fst (run_iter f xs))"
  by (induction xs) (simp_all add: run_return_written run_bind_written assms)

lemma ingest_loop_written: "all_written_in d (fst (ingest_loop ext d sn ics st))"
  by (induction ics arbitrary: st)
     (simp_all add: Let_def ingest_file_def all_written_in_simps in_dir_join str_nat_no_slash)

lemma ingest_written: "all_written_in d (fst (ingest ext cfg d))"
  by (simp add: ingest_def Let_def all_written_in_simps ingest_loop_written in_dir_join str_nat_no_slash)

lemma filtered_counts_written: "all_written_in d (fst (filtered_counts ext cfg d))"
  unfolding filtered_counts_def
  by (intro run_bind_written ingest_written run_lift_written run_return_written)

lemma write_slice_written: "all_written_in d (fst (write_slice d t i))"
  unfolding write_slice_def Let_def
  by (intro run_bind_written run_lift_written)
     (simp add: run_lift_def run_emit_def all_written_in_simps in_dir_join str_nat_no_slash)

lemma write_normalized_written: "all_written_in d (fst (write_normalized d n t))"
  unfolding write_normalized_def by (rule run_iter_written) (rule write_slice_written)

lemma reduction_input_written: "all_written_in d (fst (reduction_input ext cfg d counts))"
  unfolding reduction_input_def
  by (intro run_bind_written write_normalized_written run_lift_written run_return_written)

lemma classify_written: "all_written_in d (fst (classify ext cfg m t))"
  unfolding classify_def
  by (intro run_bind_written run_lift_written run_return_written)
     (simp_all add: run_emit_def all_written_in_simps)

lemma tissue_plots_written: "all_written_in d (fst (tissue_plots ext cfg d n ii))"
proof (cases "isfile ext (snd ii)")
  case True
  have "all_written_in d (fst (if n \<le> fst ii then run_lift (Inl IndexError)
          else run_emit
            [WroteFile (os_path_join d (''computed_classes_tissue_'' @ str_nat (fst ii) @ ''.png'')),
             WroteFile (os_path_join d (''dimensionality_color_tissue_'' @ str_nat (fst ii) @ ''.png''))]))"
    by (simp add: run_lift_def run_emit_def all_written_in_simps in_dir_join str_nat_no_slash)
  with True show ?thesis
    unfolding tissue_plots_def Let_def
    by (simp add: run_bind_written run_lift_written)
next
  case False
  then show ?thesis by (simp add: tissue_plots_def Let_def run_return_written)
qed

lemma class_files_written:
  assumes "\<And>i. f i \<noteq> [] \<and> CHR ''/'' \<notin> set (f i)"
  shows "all_written_in d (map (\<lambda>i. WroteFile (os_path_join d (f i))) is)"
  by (induction "is") (simp_all add: all_written_in_simps in_dir_join assms)

lemma write_results_written: "all_written_in d (fst (write_results ext cfg d t ls cs))"
proof -
  let ?n = "length (counts_table_files cfg)"
  have rest: "all_written_in d (fst (
      run_bind (run_emit
        (map (\<lambda>i. WroteFile (os_path_join d (''computed_classes_'' @ str_nat i @ ''.txt'')))
           [0..<?n])) (\<lambda>u.
      run_bind (run_lift (py_mapM (class_row ext ?n ls cs) (enumerate 0 (df_index t)))) (\<lambda>placed.
      run_iter (tissue_plots ext cfg d ?n)
        (enumerate 0 (case image_files cfg of None \<Rightarrow> [] | Some im \<Rightarrow> im))))))"
    by (intro run_bind_written run_lift_written run_iter_written tissue_plots_written)
       (simp add: run_emit_def class_files_written str_nat_no_slash)
  show ?thesis
    unfolding write_results_def Let_def
    apply (rule run_bind_written)
     apply (simp add: run_emit_def all_written_in_simps in_dir_join str_nat_no_slash)
    using rest by (simp add: run_lift_written)
qed

lemma main_written:
  "all_written_in (resolve_outdir ext (outdir cfg)) (fst (main ext cfg))"
  unfolding main_def
  by (intro run_bind_written run_lift_written filtered_counts_written reduction_input_written
        classify_written write_results_written)

text \<open>
  C10. When the output directory is absent or does not name a directory, line 77 takes
  the current working directory in its place (the test of line 76 does not call
  \<^verbatim>\<open>isdir\<close> on \<^verbatim>\<open>None\<close>, and the block has no exit), and every file the script
  writes, up to its end or to the exception that stops it, lies in that directory.
\<close>

theorem outdir_fallback:
  assumes "outdir cfg = None \<or> (\<exists>d. outdir cfg = Some d \<and> \<not> isdir ext d)"
  shows "resolve_outdir ext (outdir cfg) = abspath ext (getcwd ext)
       \<and> list_all (in_dir (abspath ext (getcwd ext))) (written_paths (fst (main ext cfg)))"
proof -
  from assms have "resolve_outdir ext (outdir cfg) = abspath ext (getcwd ext)"
    by (auto simp: resolve_outdir_def)
  with main_written [of ext cfg] show ?thesis by (simp add: all_written_in_def)
qed


theorem outdir_fallback_witness:
  "resolve_outdir sample_ext (outdir sample_cfg) = ''/work''
   \<and> list_all (in_dir ''/work'') (written_paths (fst (main sample_ext sample_cfg)))"
proof -
  have h: "outdir sample_cfg = None \<or> (\<exists>d. outdir sample_cfg = Some d \<and> \<not> isdir sample_ext d)"
    by (simp add: sample_cfg_def)
  have "abspath sample_ext (getcwd sample_ext) = ''/work''"
    by (simp add: sample_ext_def)
  with outdir_fallback [OF h] show ?thesis by simp
qed

subsection \<open>The sample run\<close>

lemma str_nat_0: "str_nat 0 = ''0''"
  by (simp add: str_nat.simps [of 0] digit_char_def)

lemma sample_ingest:
  "ingest sample_ext (sample_cfg\<lparr>normalization := nm\<rparr>) ''/work'' =
     ([WroteFile ''/work/hist_reads_0.png'', WroteFile ''/work/hist_genes_0.png''],
      Inr (merged_sample, []))"
  by (simp add: ingest_def ingest_file_def Let_def sample_ext_def sample_cfg_def sample_table_def
        enumerate_eq_zip df_append_def df_empty_def tag_spots_def tag_spot_def str_nat_0
        reindex_row_def replace_nan_inf_def df_fillna_def map_cells_def os_path_join_def
        merged_sample_def)

lemma sample_spot_filter: "spot_filter 0 merged_sample = Inr merged_sample"
  by (simp add: spot_filter_def quantile_def Let_def py_bind_def nonzero_count_def py_round_def
        ge_thr_def merged_sample_def)

lemma sample_gene_filter: "gene_filter (df_transpose merged_sample) = filtered_sample"
  by (simp add: gene_filter_def df_transpose_def df_index_def Let_def py_round_def MIN_EXPRESION_def
        upt_rec [of 0] upt_rec [of 1] upt_rec [of 2] merged_sample_def filtered_sample_def)

lemma sample_filtered_counts:
  "filtered_counts sample_ext (sample_cfg\<lparr>normalization := nm\<rparr>) ''/work'' =
     ([WroteFile ''/work/hist_reads_0.png'', WroteFile ''/work/hist_genes_0.png''],
      Inr filtered_sample)"
proof -
  have "sample_normalization sample_ext (sample_cfg\<lparr>normalization := nm\<rparr>) (merged_sample, [])
          = Inr merged_sample"
    by (simp add: sample_normalization_def sample_cfg_def)
  moreover have "num_exp_genes (sample_cfg\<lparr>normalization := nm\<rparr>) / 100 = 0"
    by (simp add: sample_cfg_def)
  ultimately show ?thesis
    by (simp add: filtered_counts_def sample_ingest run_bind_def run_lift_def run_return_def
          sample_spot_filter sample_gene_filter)
qed

lemma sample_rel: "per_spot_normalization sample_ext ''REL'' filtered_sample = Inr rel_sample"
  by (simp add: per_spot_normalization_def select_normalization_def py_bind_def col_sums_def
        df_div_cols_def pd_sum_def np_sum_def filtered_sample_def rel_sample_def
        upt_rec [of 0] upt_rec [of 1] upt_rec [of 2])

lemma sample_variance:
  "variance [Fin (1 / 3), Fin (2 / 3), NaN] = Some (1 / 18)"
  "variance [Fin (2 / 3), Fin (1 / 3), NaN] = Some (1 / 18)"
  by (simp_all add: variance_def Let_def fin_value_def power2_eq_square)

lemma sample_variance_filter: "variance_filter 0 rel_sample = Inr rel_sample"
  by (simp add: variance_filter_def quantile_def Let_def py_bind_def sample_variance
        opt_ge_thr_def ge_thr_def rel_sample_def del: not_None_eq)

lemma sample_transpose: "df_transpose rel_sample = reducer_sample"
  by (simp add: df_transpose_def df_index_def rel_sample_def reducer_sample_def
        upt_rec [of 0] upt_rec [of 1] upt_rec [of 2])

lemma sample_write_normalized:
  "write_normalized ''/work'' (Suc 0) reducer_sample =
     ([ToCsv ''/work/normalized_counts_0.tsv''
         \<lparr>df_columns = [''g1'', ''g2''],
          df_rows = [(''1x1'', [Fin (1 / 3), Fin (2 / 3)]),
                     (''1x2'', [Fin (2 / 3), Fin (1 / 3)]),
                     (''1x3'', [NaN, NaN])]\<rparr>], Inr ())"
  by (simp add: write_normalized_def write_slice_def Let_def spots_of_dataset_def df_index_def
        df_loc_def strip_index_def py_bind_def py_nth_def run_bind_def run_lift_def run_emit_def
        run_return_def str_nat_0 os_path_join_def reducer_sample_def)

lemma sample_reduction_input:
  "reduction_input sample_ext sample_cfg ''/work'' filtered_sample =
     ([ToCsv ''/work/normalized_counts_0.tsv''
         \<lparr>df_columns = [''g1'', ''g2''],
          df_rows = [(''1x1'', [Fin (1 / 3), Fin (2 / 3)]),
                     (''1x2'', [Fin (2 / 3), Fin (1 / 3)]),
                     (''1x3'', [NaN, NaN])]\<rparr>],
      Inr (FastICA 2, reducer_sample))"
proof -
  have cfg: "normalization sample_cfg = ''REL''" "num_genes_keep sample_cfg / 100 = 0"
    "length (counts_table_files sample_cfg) = 1" "dimensionality_algorithm sample_cfg = ''ICA''"
    "num_dimensions sample_cfg = 2" "use_log_scale sample_cfg = False"
    by (simp_all add: sample_cfg_def)
  have "select_decomp ''ICA'' 2 = Inr (FastICA 2)" by (simp add: select_decomp_def)
  then show ?thesis
    by (simp add: reduction_input_def cfg sample_rel sample_variance_filter sample_transpose
          sample_write_normalized run_bind_def run_lift_def run_return_def)
qed

lemma run_bind_events_mono: "set (fst m) \<subseteq> set (fst (run_bind m f))"
  by (cases "snd m") (auto simp: run_bind_def)

lemma sample_validate: "validate sample_ext (sample_cfg\<lparr>normalization := nm\<rparr>) = Inr ()"
  by (simp add: validate_def sample_ext_def sample_cfg_def)

lemma sample_outdir:
  "resolve_outdir sample_ext (outdir (sample_cfg\<lparr>normalization := nm\<rparr>)) = ''/work''"
  by (simp add: resolve_outdir_def sample_ext_def sample_cfg_def)

lemma sample_outdir_plain: "resolve_outdir sample_ext (outdir sample_cfg) = ''/work''"
  by (simp add: resolve_outdir_def sample_ext_def sample_cfg_def)

lemma foo_rejected: "\<not> list_ex (py_in ''foo'') normalization_choices"
  by (simp add: normalization_choices_def)


subsection \<open>Dispatch of the per spot normalization\<close>

lemma select_normalization_rejects:
  "\<not> list_ex (py_in name) normalization_choices
     \<Longrightarrow> select_normalization name = Inl incorrect_normalization"
  by (simp add: select_normalization_def normalization_choices_def incorrect_normalization_def)

lemma ingest_loop_events:
  "fst (ingest_loop ext od sn ics st)
     = concat (map (\<lambda>ic. [WroteFile (os_path_join od (''hist_reads_'' @ str_nat (fst ic) @ ''.png'')),
                           WroteFile (os_path_join od (''hist_genes_'' @ str_nat (fst ic) @ ''.png''))])
                 ics)"
  by (induction ics arbitrary: st) (simp_all add: Let_def ingest_file_def)

lemma written_paths_append: "written_paths (a @ b) = written_paths a @ written_paths b"
  by (simp add: written_paths_def)

lemma written_paths_pairs:
  "written_paths (concat (map (\<lambda>ic. [WroteFile (f (fst ic)), WroteFile (g (fst ic))]) ics))
     = concat (map (\<lambda>i. [f i, g i]) (map fst ics))"
  by (induction ics) (simp_all add: written_paths_def)

lemma ingest_paths:
  "written_paths (fst (ingest ext cfg od))
     = concat (map (\<lambda>i. [os_path_join od (''hist_reads_'' @ str_nat i @ ''.png''),
                          os_path_join od (''hist_genes_'' @ str_nat i @ ''.png'')])
                 [0..<length (counts_table_files cfg)])
       @ (if 1 < length (counts_table_files cfg)
          then [os_path_join od ''aggregated_counts.tsv''] else [])"
proof -
  define f where "f = (\<lambda>i. os_path_join od (''hist_reads_'' @ str_nat i @ ''.png''))"
  define g where "g = (\<lambda>i. os_path_join od (''hist_genes_'' @ str_nat i @ ''.png''))"
  let ?fs = "counts_table_files cfg"
  have loop: "fst (ingest_loop ext od sn ics st)
      = concat (map (\<lambda>ic. [WroteFile (f (fst ic)), WroteFile (g (fst ic))]) ics)" for sn ics st
    unfolding f_def g_def by (rule ingest_loop_events)
  have "written_paths (fst (ingest ext cfg od))
      = concat (map (\<lambda>i. [f i, g i]) (map fst (enumerate 0 ?fs)))
        @ (if 1 < length ?fs then [os_path_join od ''aggregated_counts.tsv''] else [])"
    by (simp add: ingest_def Let_def loop written_paths_append written_paths_pairs)
       (simp add: written_paths_def)
  then show ?thesis by (simp add: f_def g_def)
qed

lemma filtered_counts_events:
  "fst (filtered_counts ext cfg od) = fst (ingest ext cfg od)"
  by (simp add: filtered_counts_def run_bind_def run_lift_def run_return_def split: sum.splits)

lemma main_rejects:
  assumes "\<not> list_ex (py_in (normalization cfg)) normalization_choices"
    and "validate ext cfg = Inr ()"
  shows "fst (main ext cfg) = fst (ingest ext cfg (resolve_outdir ext (outdir cfg)))"
    and "\<exists>e. snd (main ext cfg) = Inl e"
    and "snd (filtered_counts ext cfg (resolve_outdir ext (outdir cfg))) = Inr c
           \<Longrightarrow> snd (main ext cfg) = Inl incorrect_normalization"
proof -
  let ?od = "resolve_outdir ext (outdir cfg)"
  have ri: "reduction_input ext cfg ?od counts = ([], Inl incorrect_normalization)" for counts
    by (simp add: reduction_input_def per_spot_normalization_def
          select_normalization_rejects [OF assms(1)] py_bind_def run_bind_def run_lift_def)
  have m: "main ext cfg =
      (fst (filtered_counts ext cfg ?od),
       case snd (filtered_counts ext cfg ?od) of
         Inl e \<Rightarrow> Inl e | Inr counts \<Rightarrow> Inl incorrect_normalization)"
    by (simp add: main_def assms(2) ri run_bind_def run_lift_def split: sum.splits)
  show "fst (main ext cfg) = fst (ingest ext cfg ?od)"
    by (simp add: m filtered_counts_events)
  show "\<exists>e. snd (main ext cfg) = Inl e"
    by (simp add: m split: sum.splits)
  show "snd (filtered_counts ext cfg ?od) = Inr c \<Longrightarrow> snd (main ext cfg) = Inl incorrect_normalization"
    by (simp add: m)
qed

text \<open>
  C4, as amended. Each of the six names of the command line runs the branch of its name.
  A name that is not a substring of one of the six names makes the per spot normalization
  exit with status 1 and the message of a wrong normalization method; a run with such a
  name that passed the validation never ends normally, exits that way once the counts are
  filtered, and has written by then the two histograms of every dataset, the aggregated
  counts when there is more than one dataset, and nothing else.
\<close>

theorem normalization_dispatch:
  "per_spot_normalization ext ''RAW'' counts = Inr (apply_normalization ext RAW counts)
   \<and> per_spot_normalization ext ''DESeq'' counts = Inr (apply_normalization ext DESeq counts)
   \<and> per_spot_normalization ext ''DESeq2'' counts = Inr (apply_normalization ext DESeq2 counts)
   \<and> per_spot_normalization ext ''DESeq2Log'' counts = Inr (apply_normalization ext DESeq2Log counts)
   \<and> per_spot_normalization ext ''EdgeR'' counts = Inr (apply_normalization ext EdgeR counts)
   \<and> per_spot_normalization ext ''REL'' counts = Inr (apply_normalization ext REL counts)
   \<and> (\<not> list_ex (py_in name) normalization_choices \<longrightarrow>
        per_spot_normalization ext name counts = Inl incorrect_normalization)
   \<and> (\<not> list_ex (py_in (normalization cfg)) normalization_choices \<and> validate ext cfg = Inr () \<longrightarrow>
        (\<exists>e. snd (main ext cfg) = Inl e)
        \<and> (\<forall>c. snd (filtered_counts ext cfg (resolve_outdir ext (outdir cfg))) = Inr c \<longrightarrow>
               snd (main ext cfg) = Inl incorrect_normalization)
        \<and> written_paths (fst (main ext cfg))
            = concat (map (\<lambda>i. [os_path_join (resolve_outdir ext (outdir cfg))
                                   (''hist_reads_'' @ str_nat i @ ''.png''),
                                 os_path_join (resolve_outdir ext (outdir cfg))
                                   (''hist_genes_'' @ str_nat i @ ''.png'')])
                        [0..<length (counts_table_files cfg)])
              @ (if 1 < length (counts_table_files cfg)
                 then [os_path_join (resolve_outdir ext (outdir cfg)) ''aggregated_counts.tsv'']
                 else []))"
proof -
  have six: "per_spot_normalization ext ''RAW'' counts = Inr (apply_normalization ext RAW counts)"
    "per_spot_normalization ext ''DESeq'' counts = Inr (apply_normalization ext DESeq counts)"
    "per_spot_normalization ext ''DESeq2'' counts = Inr (apply_normalization ext DESeq2 counts)"
    "per_spot_normalization ext ''DESeq2Log'' counts = Inr (apply_normalization ext DESeq2Log counts)"
    "per_spot_normalization ext ''EdgeR'' counts = Inr (apply_normalization ext EdgeR counts)"
    "per_spot_normalization ext ''REL'' counts = Inr (apply_normalization ext REL counts)"
    by (simp_all add: per_spot_normalization_def select_normalization_def py_bind_def)
  have rej: "per_spot_normalization ext name counts = Inl incorrect_normalization"
    if "\<not> list_ex (py_in name) normalization_choices"
    using select_normalization_rejects [OF that]
    by (simp add: per_spot_normalization_def py_bind_def)
  have run: "(\<exists>e. snd (main ext cfg) = Inl e)
        \<and> (\<forall>c. snd (filtered_counts ext cfg (resolve_outdir ext (outdir cfg))) = Inr c \<longrightarrow>
               snd (main ext cfg) = Inl incorrect_normalization)
        \<and> written_paths (fst (main ext cfg))
            = concat (map (\<lambda>i. [os_path_join (resolve_outdir ext (outdir cfg))
                                   (''hist_reads_'' @ str_nat i @ ''.png''),
                                 os_path_join (resolve_outdir ext (outdir cfg))
                                   (''hist_genes_'' @ str_nat i @ ''.png'')])
                        [0..<length (counts_table_files cfg)])
              @ (if 1 < length (counts_table_files cfg)
                 then [os_path_join (resolve_outdir ext (outdir cfg)) ''aggregated_counts.tsv'']
                 else [])"
    if bad: "\<not> list_ex (py_in (normalization cfg)) normalization_choices"
      and ok: "validate ext cfg = Inr ()"
    using main_rejects [OF bad ok] by (simp only: ingest_paths) blast
  from six rej run show ?thesis by blast
qed

theorem normalization_dispatch_witness:
  "per_spot_normalization sample_ext ''foo'' filtered_sample = Inl incorrect_normalization
   \<and> snd (main sample_ext (sample_cfg\<lparr>normalization := ''foo''\<rparr>)) = Inl incorrect_normalization
   \<and> written_paths (fst (main sample_ext (sample_cfg\<lparr>normalization := ''foo''\<rparr>)))
       = [''/work/hist_reads_0.png'', ''/work/hist_genes_0.png'']"
proof -
  let ?cfg = "sample_cfg\<lparr>normalization := ''foo''\<rparr>"
  have n: "normalization ?cfg = ''foo''" by simp
  have len: "counts_table_files sample_cfg = [''a.tsv'']" by (simp add: sample_cfg_def)
  have fc: "snd (filtered_counts sample_ext ?cfg (resolve_outdir sample_ext (outdir ?cfg)))
              = Inr filtered_sample"
    by (simp only: sample_outdir sample_filtered_counts snd_conv)
  show ?thesis
    using normalization_dispatch [of sample_ext filtered_sample "''foo''" ?cfg]
      foo_rejected sample_validate [of "''foo''"] fc
    by (simp add: n len sample_outdir_plain str_nat_0 os_path_join_def)
qed

text \<open>
  The claim C4 as it is written fails twice: the name \<^verbatim>\<open>D\<close> is none of the six names and
  runs DESeq, and the run with the name \<^verbatim>\<open>foo\<close> exits after two files were written.
\<close>

theorem normalization_counterexample:
  "''D'' \<notin> set normalization_choices
   \<and> per_spot_normalization sample_ext ''D'' filtered_sample
       = Inr (apply_normalization sample_ext DESeq filtered_sample)
   \<and> ''foo'' \<notin> set normalization_choices
   \<and> main sample_ext (sample_cfg\<lparr>normalization := ''foo''\<rparr>)
       = ([WroteFile ''/work/hist_reads_0.png'', WroteFile ''/work/hist_genes_0.png''],
          Inl incorrect_normalization)"
proof -
  let ?cfg = "sample_cfg\<lparr>normalization := ''foo''\<rparr>"
  have "reduction_input sample_ext ?cfg ''/work'' filtered_sample = ([], Inl incorrect_normalization)"
    by (simp add: reduction_input_def per_spot_normalization_def select_normalization_def
          incorrect_normalization_def py_bind_def run_bind_def run_lift_def)
  then have "main sample_ext ?cfg
       = ([WroteFile ''/work/hist_reads_0.png'', WroteFile ''/work/hist_genes_0.png''],
          Inl incorrect_normalization)"
    by (simp add: main_def sample_validate sample_outdir_plain sample_filtered_counts
          run_bind_def run_lift_def)
  moreover have "per_spot_normalization sample_ext ''D'' filtered_sample
       = Inr (apply_normalization sample_ext DESeq filtered_sample)"
    by (simp add: per_spot_normalization_def select_normalization_def py_bind_def)
  ultimately show ?thesis by (simp add: normalization_choices_def)
qed


subsection \<open>Values handed to the reducer\<close>

text \<open>
  C1. The claim is that no NaN and no infinity reaches the reducer. In the sample run
  the third spot has no count, the normalization \<^verbatim>\<open>REL\<close> divides its zeros by its total
  zero, nothing replaces the NaN after the per spot normalization, and the matrix given to
  \<^verbatim>\<open>fit_transform\<close> holds them. The clean-up blocks that do exist (lines 105-107,
  121-123, 141-143) drop the result of \<^verbatim>\<open>replace\<close>, so they fill NaN and keep the
  infinities.
\<close>

theorem nan_reaches_reducer:
  "FitTransform (FastICA 2)
     \<lparr>df_columns = [''g1'', ''g2''],
      df_rows = [(''0_1x1'', [Fin (1 / 3), Fin (2 / 3)]),
                 (''0_1x2'', [Fin (2 / 3), Fin (1 / 3)]),
                 (''0_1x3'', [NaN, NaN])]\<rparr>
     \<in> set (fst (main sample_ext sample_cfg))
   \<and> replace_nan_inf \<lparr>df_columns = [''g1'', ''g2'', ''g3''], df_rows = [(''1x1'', [PInf, NInf, NaN])]\<rparr>
       = \<lparr>df_columns = [''g1'', ''g2'', ''g3''], df_rows = [(''1x1'', [PInf, NInf, Fin 0])]\<rparr>"
proof
  have fc: "filtered_counts sample_ext sample_cfg ''/work'' =
     ([WroteFile ''/work/hist_reads_0.png'', WroteFile ''/work/hist_genes_0.png''],
      Inr filtered_sample)"
    using sample_filtered_counts [of "''REL''"] by (simp add: sample_cfg_def)
  have v: "validate sample_ext sample_cfg = Inr ()"
    by (simp add: validate_def sample_ext_def sample_cfg_def)
  have "FitTransform (FastICA 2) reducer_sample
          \<in> set (fst (classify sample_ext sample_cfg (FastICA 2) reducer_sample))"
    unfolding classify_def
    by (rule subsetD [OF run_bind_events_mono]) (simp add: run_emit_def)
  then have "FitTransform (FastICA 2) reducer_sample \<in> set (fst (main sample_ext sample_cfg))"
    by (simp add: main_def v sample_outdir_plain fc sample_reduction_input run_bind_def
          run_lift_def split: sum.splits)
  then show "FitTransform (FastICA 2)
     \<lparr>df_columns = [''g1'', ''g2''],
      df_rows = [(''0_1x1'', [Fin (1 / 3), Fin (2 / 3)]),
                 (''0_1x2'', [Fin (2 / 3), Fin (1 / 3)]),
                 (''0_1x3'', [NaN, NaN])]\<rparr>
     \<in> set (fst (main sample_ext sample_cfg))"
    by (simp only: reducer_sample_def)
next
  show "replace_nan_inf \<lparr>df_columns = [''g1'', ''g2'', ''g3''], df_rows = [(''1x1'', [PInf, NInf, NaN])]\<rparr>
       = \<lparr>df_columns = [''g1'', ''g2'', ''g3''], df_rows = [(''1x1'', [PInf, NInf, Fin 0])]\<rparr>"
    by (simp add: replace_nan_inf_def df_fillna_def map_cells_def)
qed

end
